theory Spec2Isabelle
  imports Complex_Main "HOL-Library.Char_ord" "HOL-Library.List_Lexorder"
begin

section \<open>Values, configuration and requests\<close>

text \<open>
  The product API exists twice in the repository: as a single script (\<open>server.js\<close>, which
  declares its own schema, middleware, routes and error handler) and as a router module with
  a controller (\<open>productController.js\<close>), a model (\<open>Product.js\<close>) and a separate
  authentication middleware. Both are embedded below; names of the script are kept as they
  are, names of the modules that clash with them carry a suffix.
\<close>

abbreviation OK :: nat where "OK \<equiv> 200"
abbreviation CREATED :: nat where "CREATED \<equiv> 201"
abbreviation NO_CONTENT :: nat where "NO_CONTENT \<equiv> 204"
abbreviation BAD_REQUEST :: nat where "BAD_REQUEST \<equiv> 400"
abbreviation UNAUTHORIZED :: nat where "UNAUTHORIZED \<equiv> 401"
abbreviation FORBIDDEN :: nat where "FORBIDDEN \<equiv> 403"
abbreviation NOT_FOUND :: nat where "NOT_FOUND \<equiv> 404"
abbreviation INTERNAL_SERVER_ERROR :: nat where "INTERNAL_SERVER_ERROR \<equiv> 500"

text \<open>\<open>process.env\<close>: a variable that is not set reads as \<open>undefined\<close>, here \<open>None\<close>.\<close>

record config =
  API_KEY :: "string option"
  NODE_ENV :: "string option"

subsection \<open>JavaScript numbers and values\<close>

text \<open>
  A JavaScript number is a finite value, one of the two infinities, or NaN. Finite values
  are taken as exact rationals: rounding of doubles is not modelled, and the two zeros are
  one value.
\<close>

datatype jsnum = Fin rat | PInf | NInf | NaN

fun js_lt :: "jsnum \<Rightarrow> jsnum \<Rightarrow> bool" where
  "js_lt NaN _ = False"
| "js_lt _ NaN = False"
| "js_lt (Fin a) (Fin b) = (a < b)"
| "js_lt (Fin a) PInf = True"
| "js_lt NInf (Fin b) = True"
| "js_lt NInf PInf = True"
| "js_lt _ _ = False"

fun js_le :: "jsnum \<Rightarrow> jsnum \<Rightarrow> bool" where
  "js_le NaN _ = False"
| "js_le _ NaN = False"
| "js_le (Fin a) (Fin b) = (a \<le> b)"
| "js_le NInf _ = True"
| "js_le _ PInf = True"
| "js_le _ _ = False"

fun js_neg :: "jsnum \<Rightarrow> jsnum" where
  "js_neg (Fin a) = Fin (- a)"
| "js_neg PInf = NInf"
| "js_neg NInf = PInf"
| "js_neg NaN = NaN"

fun js_sub :: "jsnum \<Rightarrow> jsnum \<Rightarrow> jsnum" where
  "js_sub NaN _ = NaN"
| "js_sub _ NaN = NaN"
| "js_sub (Fin a) (Fin b) = Fin (a - b)"
| "js_sub (Fin a) PInf = NInf"
| "js_sub (Fin a) NInf = PInf"
| "js_sub PInf PInf = NaN"
| "js_sub NInf NInf = NaN"
| "js_sub PInf _ = PInf"
| "js_sub NInf _ = NInf"

text \<open>The sign of a number that is not NaN: \<open>-1\<close>, \<open>0\<close> or \<open>1\<close>.\<close>

fun js_sgn :: "jsnum \<Rightarrow> int" where
  "js_sgn (Fin a) = (if a < 0 then - 1 else if a = 0 then 0 else 1)"
| "js_sgn PInf = 1"
| "js_sgn NInf = - 1"
| "js_sgn NaN = 0"

fun js_mul :: "jsnum \<Rightarrow> jsnum \<Rightarrow> jsnum" where
  "js_mul NaN _ = NaN"
| "js_mul _ NaN = NaN"
| "js_mul (Fin a) (Fin b) = Fin (a * b)"
| "js_mul x y =
     (let s = js_sgn x * js_sgn y in if s = 0 then NaN else if s < 0 then NInf else PInf)"

fun js_div :: "jsnum \<Rightarrow> jsnum \<Rightarrow> jsnum" where
  "js_div NaN _ = NaN"
| "js_div _ NaN = NaN"
| "js_div (Fin a) (Fin b) =
     (if b = 0 then (if a = 0 then NaN else if a < 0 then NInf else PInf) else Fin (a / b))"
| "js_div (Fin a) _ = Fin 0"
| "js_div x (Fin b) = (if js_sgn x * (if b < 0 then - 1 else 1) < 0 then NInf else PInf)"
| "js_div _ _ = NaN"

text \<open>\<open>Math.ceil\<close>.\<close>

fun js_ceil :: "jsnum \<Rightarrow> jsnum" where
  "js_ceil (Fin a) = Fin (of_int \<lceil>a\<rceil>)"
| "js_ceil x = x"

text \<open>
  A scalar of a parsed JSON body; \<open>JUndefined\<close> is what reading a missing key gives.
  Arrays and nested objects as field values are outside the model.
\<close>

datatype jsval = JUndefined | JNull | JBool bool | JNum jsnum | JStr string

fun truthy :: "jsval \<Rightarrow> bool" where
  "truthy JUndefined = False"
| "truthy JNull = False"
| "truthy (JBool b) = b"
| "truthy (JNum n) = (n \<noteq> NaN \<and> n \<noteq> Fin 0)"
| "truthy (JStr s) = (s \<noteq> [])"

text \<open>JavaScript truthiness of a value that is a string or \<open>undefined\<close>.\<close>

fun truthy_str :: "string option \<Rightarrow> bool" where
  "truthy_str None = False"
| "truthy_str (Some s) = (s \<noteq> [])"

text \<open>\<open>a || b\<close> on such values: \<open>a\<close> when it is truthy, otherwise \<open>b\<close> as it is.\<close>

definition js_or :: "string option \<Rightarrow> string option \<Rightarrow> string option" where
  "js_or a b = (if truthy_str a then a else b)"

subsection \<open>Requests\<close>

text \<open>
  The parts of a request the handlers read. The path is its list of segments. Header and
  query values are strings (a repeated query parameter, which Express turns into an array,
  is outside the model); a missing key reads as \<open>undefined\<close>. Of the body, the five
  declared product fields are read.
\<close>

datatype http_method = GET | POST | PUT | DELETE

record request =
  meth :: http_method
  url_path :: "string list"
  headers :: "(string \<times> string) list"
  query :: "(string \<times> string) list"
  reqbody :: "(string \<times> jsval) list"

definition header :: "request \<Rightarrow> string \<Rightarrow> string option" where
  "header req k = map_of (headers req) k"

definition param :: "request \<Rightarrow> string \<Rightarrow> string option" where
  "param req k = map_of (query req) k"

definition field :: "request \<Rightarrow> string \<Rightarrow> jsval" where
  "field req k = (case map_of (reqbody req) k of None \<Rightarrow> JUndefined | Some v \<Rightarrow> v)"

subsection \<open>Products and the library\<close>

text \<open>
  A stored document. \<open>inStock\<close> may hold \<open>null\<close> (\<open>None\<close>): the schema does not require
  the path, and its default replaces \<open>undefined\<close> only. Time stamps are numbers of a clock.
\<close>

record product =
  pid :: string
  name :: string
  description :: string
  price :: jsnum
  category :: string
  inStock :: "bool option"
  createdAt :: nat
  updatedAt :: nat

text \<open>
  What the handlers take from the JavaScript runtime, from Mongoose and from the database
  and what the repository does not define: conversions between strings and numbers,
  \<open>trim\<close> and \<open>toLowerCase\<close>, regular expressions (whether a pattern is well formed, and
  whether it matches somewhere in a text with option \<open>i\<close>), the cast of a string to a
  document identifier (\<open>None\<close> for a string that is not a well-formed identifier, otherwise
  the identifier in the spelling in which documents hold it), how a filter value for \<open>category\<close> is cast, the order a \<open>sort\<close> string
  gives, the answer of the database to a window that is not a natural number of documents
  to skip and a positive natural number of documents to take, and the texts of error
  messages and stack traces. The theorems hold for every such library.
\<close>

record lib =
  toNumber :: "string \<Rightarrow> jsnum"
  numToString :: "jsnum \<Rightarrow> string"
  trim :: "string \<Rightarrow> string"
  toLowerCase :: "string \<Rightarrow> string"
  regexValid :: "string \<Rightarrow> bool"
  regexTest :: "string \<Rightarrow> string \<Rightarrow> bool"
  castObjectId :: "string \<Rightarrow> string option"
  castFilter :: "string \<Rightarrow> string"
  sortBy :: "string \<Rightarrow> product list \<Rightarrow> product list"
  oddWindow :: "jsnum \<Rightarrow> jsnum \<Rightarrow> product list \<Rightarrow> product list option"
  errorText :: "string \<Rightarrow> string list \<Rightarrow> string"
  captureStack :: "string \<Rightarrow> string"

text \<open>A string that is a well-formed identifier.\<close>

definition isObjectId :: "lib \<Rightarrow> string \<Rightarrow> bool" where
  "isObjectId L i = (castObjectId L i \<noteq> None)"

text \<open>What one request gets from its environment: the clock and the next identifier.\<close>

record runtime =
  now :: nat
  newId :: string

subsection \<open>Errors\<close>

text \<open>
  A thrown error, as the error handler reads it. The two classes of \<open>server.js\<close> set a
  status code; the errors of Mongoose and of the database carry none.
\<close>

record js_error =
  err_name :: string
  message :: string
  statusCode :: "nat option"
  stack :: string
  errors :: "string list"

definition NotFoundError :: "lib \<Rightarrow> string \<Rightarrow> js_error" where
  "NotFoundError L msg =
     \<lparr>err_name = ''NotFoundError'', message = msg, statusCode = Some NOT_FOUND,
      stack = captureStack L msg, errors = []\<rparr>"

definition ValidationError :: "lib \<Rightarrow> string \<Rightarrow> string list \<Rightarrow> js_error" where
  "ValidationError L msg errs =
     \<lparr>err_name = ''ValidationError'', message = msg, statusCode = Some BAD_REQUEST,
      stack = captureStack L msg, errors = errs\<rparr>"

text \<open>Mongoose's error for a value that cannot be cast to the type of its path.\<close>

definition CastError :: "lib \<Rightarrow> string \<Rightarrow> string \<Rightarrow> js_error" where
  "CastError L pth v =
     \<lparr>err_name = ''CastError'', message = errorText L ''CastError'' [pth, v],
      statusCode = None, stack = captureStack L (errorText L ''CastError'' [pth, v]),
      errors = []\<rparr>"

text \<open>
  Mongoose's error for a document that fails its schema; \<open>errors\<close> lists the failing
  paths. It shares its name with the class of \<open>server.js\<close> and nothing else.
\<close>

definition SchemaValidationError :: "lib \<Rightarrow> string list \<Rightarrow> js_error" where
  "SchemaValidationError L pths =
     \<lparr>err_name = ''ValidationError'', message = errorText L ''ValidationError'' pths,
      statusCode = None, stack = captureStack L (errorText L ''ValidationError'' pths),
      errors = pths\<rparr>"

text \<open>An error the database answers a command with.\<close>

definition MongoServerError :: "lib \<Rightarrow> string \<Rightarrow> js_error" where
  "MongoServerError L what =
     \<lparr>err_name = ''MongoServerError'', message = errorText L ''MongoServerError'' [what],
      statusCode = None, stack = captureStack L (errorText L ''MongoServerError'' [what]),
      errors = []\<rparr>"

section \<open>Responses\<close>

text \<open>One entry of \<open>byCategory\<close>: the result of the \<open>$group\<close> stage for one category.\<close>

record category_stats =
  cs_id :: string
  count :: nat
  avgPrice :: jsnum
  minPrice :: jsnum
  maxPrice :: jsnum
  totalValue :: jsnum

record stats_data =
  totalProducts :: int
  inStockCount :: int
  outOfStock :: int
  byCategory :: "category_stats list"

text \<open>The body of the controller's list response.\<close>

record listing =
  l_count :: nat
  l_total :: nat
  l_page :: jsnum
  l_totalPages :: jsnum
  hasNextPage :: bool
  hasPreviousPage :: bool
  l_data :: "product list"

text \<open>The body of the list response of \<open>server.js\<close>.\<close>

record page_data =
  p_total :: nat
  p_totalPages :: jsnum
  currentPage :: jsval
  p_data :: "product list"

datatype body =
    Text string
  | Message string
  | MessageStack string "string option"
  | Errors "string list"
  | ErrorText string
  | Data product
  | NoData
  | Listing listing
  | Page page_data
  | Found nat "product list"
  | Stats stats_data
  | Empty

record response =
  status :: nat
  body :: body

section \<open>Request Validator\<close>

text \<open>
  The validation chain of \<open>server.js\<close>. A validator of the chain sees its field as a
  string: \<open>undefined\<close>, \<open>null\<close> and NaN as the empty string, anything else through
  \<open>String\<close>.
\<close>

fun toString :: "lib \<Rightarrow> jsval \<Rightarrow> string" where
  "toString L JUndefined = []"
| "toString L JNull = []"
| "toString L (JBool b) = (if b then ''true'' else ''false'')"
| "toString L (JNum n) = (if n = NaN then [] else numToString L n)"
| "toString L (JStr s) = s"

definition notEmpty :: "string \<Rightarrow> bool" where
  "notEmpty s = (s \<noteq> [])"

definition isDigit :: "char \<Rightarrow> bool" where
  "isDigit c = (c \<in> set ''0123456789'')"

text \<open>\<open>isNumeric\<close>: an optional sign, then digits, or digits (maybe none), a dot and digits.\<close>

definition isNumeric :: "string \<Rightarrow> bool" where
  "isNumeric s =
     (let t = (case s of [] \<Rightarrow> [] | c # r \<Rightarrow> if c = CHR ''+'' \<or> c = CHR ''-'' then r else s);
          a = takeWhile isDigit t;
          b = dropWhile isDigit t
      in case b of
           [] \<Rightarrow> a \<noteq> []
         | c # r \<Rightarrow> c = CHR ''.'' \<and> r \<noteq> [] \<and> list_all isDigit r)"

definition isBoolean :: "string \<Rightarrow> bool" where
  "isBoolean s = (s \<in> set [''true'', ''false'', ''1'', ''0''])"

text \<open>
  The messages of the checks that fail, all of them, in the order of the chain;
  \<open>optional\<close> skips the check of \<open>inStock\<close> when the field is \<open>undefined\<close>.
\<close>

definition validationResult :: "lib \<Rightarrow> request \<Rightarrow> string list" where
  "validationResult L req =
     (if notEmpty (toString L (field req ''name'')) then [] else [''Name is required'']) @
     (if notEmpty (toString L (field req ''description'')) then []
      else [''Description is required'']) @
     (if isNumeric (toString L (field req ''price'')) then []
      else [''Price must be a number'']) @
     (if notEmpty (toString L (field req ''category'')) then []
      else [''Category is required'']) @
     (if field req ''inStock'' = JUndefined \<or> isBoolean (toString L (field req ''inStock''))
      then [] else [''inStock must be a boolean''])"

definition validateProduct :: "lib \<Rightarrow> request \<Rightarrow> response + unit" where
  "validateProduct L req =
     (let errs = validationResult L req in
      if errs \<noteq> [] then Inl \<lparr>status = BAD_REQUEST, body = Errors errs\<rparr> else Inr ())"

section \<open>Product schema\<close>

text \<open>
  The schema is declared twice, with the same types, setters and validators. A path is
  cast when it is set; \<open>None\<close> of a cast is a value that cannot be cast or that casts to
  \<open>null\<close>, either of which fails the validation of a required path.
\<close>

definition categories :: "string list" where
  "categories = [''electronics'', ''clothing'', ''home'', ''kitchen'', ''sports'', ''other'']"

fun castString :: "lib \<Rightarrow> jsval \<Rightarrow> string option" where
  "castString L JUndefined = None"
| "castString L JNull = None"
| "castString L (JBool b) = Some (if b then ''true'' else ''false'')"
| "castString L (JNum n) = Some (numToString L n)"
| "castString L (JStr s) = Some s"

fun castNumber :: "lib \<Rightarrow> jsval \<Rightarrow> jsnum option" where
  "castNumber L JUndefined = None"
| "castNumber L JNull = None"
| "castNumber L (JBool b) = Some (Fin (if b then 1 else 0))"
| "castNumber L (JNum n) = (if n = NaN then None else Some n)"
| "castNumber L (JStr s) =
     (if s = [] then None else if toNumber L s = NaN then None else Some (toNumber L s))"

text \<open>
  The cast of a Boolean path: \<open>None\<close> is a value that cannot be cast, \<open>Some None\<close> is
  \<open>null\<close>, which the path may hold.
\<close>

fun castBoolean :: "jsval \<Rightarrow> bool option option" where
  "castBoolean JUndefined = Some None"
| "castBoolean JNull = Some None"
| "castBoolean (JBool b) = Some (Some b)"
| "castBoolean (JNum n) =
     (if n = Fin 1 then Some (Some True) else if n = Fin 0 then Some (Some False) else None)"
| "castBoolean (JStr s) =
     (if s \<in> set [''true'', ''1'', ''yes''] then Some (Some True)
      else if s \<in> set [''false'', ''0'', ''no''] then Some (Some False) else None)"

text \<open>The setters of the three string paths.\<close>

definition set_name :: "lib \<Rightarrow> jsval \<Rightarrow> string option" where
  "set_name L v = map_option (trim L) (castString L v)"

definition set_description :: "lib \<Rightarrow> jsval \<Rightarrow> string option" where
  "set_description L v = map_option (trim L) (castString L v)"

definition set_category :: "lib \<Rightarrow> jsval \<Rightarrow> string option" where
  "set_category L v = map_option (toLowerCase L) (castString L v)"

text \<open>The validators of the four required paths, on a value that was cast.\<close>

definition valid_name :: "string \<Rightarrow> bool" where
  "valid_name s = (s \<noteq> [] \<and> length s \<le> 100)"

definition valid_description :: "string \<Rightarrow> bool" where
  "valid_description s = (s \<noteq> [] \<and> length s \<le> 1000)"

definition valid_price :: "jsnum \<Rightarrow> bool" where
  "valid_price n = js_le (Fin 0) n"

definition valid_category :: "string \<Rightarrow> bool" where
  "valid_category s = (s \<noteq> [] \<and> s \<in> set categories)"

text \<open>
  A document in memory: its fields, and the paths that were set to a value that failed
  its cast or was cast to \<open>null\<close>.
\<close>

record doc =
  cur :: product
  bad :: "string list"

definition assign_name :: "lib \<Rightarrow> jsval \<Rightarrow> doc \<Rightarrow> doc" where
  "assign_name L v d =
     (case set_name L v of None \<Rightarrow> d\<lparr>bad := bad d @ [''name'']\<rparr>
      | Some s \<Rightarrow> d\<lparr>cur := (cur d)\<lparr>name := s\<rparr>\<rparr>)"

definition assign_description :: "lib \<Rightarrow> jsval \<Rightarrow> doc \<Rightarrow> doc" where
  "assign_description L v d =
     (case set_description L v of None \<Rightarrow> d\<lparr>bad := bad d @ [''description'']\<rparr>
      | Some s \<Rightarrow> d\<lparr>cur := (cur d)\<lparr>description := s\<rparr>\<rparr>)"

definition assign_price :: "lib \<Rightarrow> jsval \<Rightarrow> doc \<Rightarrow> doc" where
  "assign_price L v d =
     (case castNumber L v of None \<Rightarrow> d\<lparr>bad := bad d @ [''price'']\<rparr>
      | Some n \<Rightarrow> d\<lparr>cur := (cur d)\<lparr>price := n\<rparr>\<rparr>)"

definition assign_category :: "lib \<Rightarrow> jsval \<Rightarrow> doc \<Rightarrow> doc" where
  "assign_category L v d =
     (case set_category L v of None \<Rightarrow> d\<lparr>bad := bad d @ [''category'']\<rparr>
      | Some s \<Rightarrow> d\<lparr>cur := (cur d)\<lparr>category := s\<rparr>\<rparr>)"

definition assign_inStock :: "jsval \<Rightarrow> doc \<Rightarrow> doc" where
  "assign_inStock v d =
     (case castBoolean v of None \<Rightarrow> d\<lparr>bad := bad d @ [''inStock'']\<rparr>
      | Some b \<Rightarrow> d\<lparr>cur := (cur d)\<lparr>inStock := b\<rparr>\<rparr>)"

text \<open>
  The paths of a document that fail validation. They are listed in the order of the
  schema; the order in which Mongoose reports them is not modelled.
\<close>

definition invalid_paths :: "doc \<Rightarrow> string list" where
  "invalid_paths d =
     (if ''name'' \<in> set (bad d) \<or> \<not> valid_name (name (cur d)) then [''name''] else []) @
     (if ''description'' \<in> set (bad d) \<or> \<not> valid_description (description (cur d))
      then [''description''] else []) @
     (if ''price'' \<in> set (bad d) \<or> \<not> valid_price (price (cur d)) then [''price''] else []) @
     (if ''category'' \<in> set (bad d) \<or> \<not> valid_category (category (cur d))
      then [''category''] else []) @
     (if ''inStock'' \<in> set (bad d) then [''inStock''] else [])"

definition validate :: "lib \<Rightarrow> doc \<Rightarrow> js_error + product" where
  "validate L d =
     (if invalid_paths d = [] then Inr (cur d)
      else Inl (SchemaValidationError L (invalid_paths d)))"

section \<open>Product Store\<close>

text \<open>
  The collection, in its natural order. Operations that can fail return the error on the
  left. Requests are served one after the other. A lookup by identifier casts the string
  it is given and compares the result with the identifiers of the documents, so that every
  spelling of an identifier finds its document.
\<close>

type_synonym store = "product list"

definition findById :: "lib \<Rightarrow> store \<Rightarrow> string \<Rightarrow> js_error + product option" where
  "findById L st i =
     (case castObjectId L i of
        None \<Rightarrow> Inl (CastError L ''_id'' i)
      | Some j \<Rightarrow> Inr (find (\<lambda>p. pid p = j) st))"

fun replace :: "string \<Rightarrow> product \<Rightarrow> store \<Rightarrow> store" where
  "replace i q [] = []"
| "replace i q (x # xs) = (if pid x = i then q # xs else x # replace i q xs)"

fun deleteOne :: "string \<Rightarrow> store \<Rightarrow> store" where
  "deleteOne i [] = []"
| "deleteOne i (x # xs) = (if pid x = i then xs else x # deleteOne i xs)"

text \<open>
  \<open>new Product(...)\<close>: every declared path is set from the value given for it; the default
  of \<open>inStock\<close> stands where the value is \<open>undefined\<close>.
\<close>

definition new_Product ::
  "lib \<Rightarrow> runtime \<Rightarrow> jsval \<Rightarrow> jsval \<Rightarrow> jsval \<Rightarrow> jsval \<Rightarrow> jsval \<Rightarrow> doc" where
  "new_Product L rt n d p c s =
     (let blank = \<lparr>cur = \<lparr>pid = newId rt, name = [], description = [], price = NaN,
                          category = [], inStock = Some True,
                          createdAt = now rt, updatedAt = now rt\<rparr>,
                   bad = []\<rparr>;
          d4 = assign_category L c (assign_price L p (assign_description L d
                 (assign_name L n blank)))
      in if s = JUndefined then d4 else assign_inStock s d4)"

text \<open>\<open>save\<close> of a new document: validation, then the insert.\<close>

definition save_new :: "lib \<Rightarrow> doc \<Rightarrow> store \<Rightarrow> js_error + (product \<times> store)" where
  "save_new L d st =
     (case validate L d of Inl e \<Rightarrow> Inl e | Inr p \<Rightarrow> Inr (p, st @ [p]))"

text \<open>
  \<open>save\<close> of a document that was loaded as \<open>p0\<close>: validation, then the write of what
  changed, with a new \<open>updatedAt\<close>; nothing is written when nothing changed.
\<close>

definition save :: "lib \<Rightarrow> runtime \<Rightarrow> product \<Rightarrow> doc \<Rightarrow> store \<Rightarrow> js_error + (product \<times> store)" where
  "save L rt p0 d st =
     (case validate L d of
        Inl e \<Rightarrow> Inl e
      | Inr p \<Rightarrow>
          if p = p0 then Inr (p, st)
          else Inr (p\<lparr>updatedAt := now rt\<rparr>, replace (pid p0) (p\<lparr>updatedAt := now rt\<rparr>) st))"

subsection \<open>Filters\<close>

datatype cond =
    NameRegex string
  | PriceGte jsnum
  | PriceLte jsnum
  | CategoryIn "string list"
  | CategoryEq string
  | InStockEq bool
  | SearchRegex string

fun matches :: "lib \<Rightarrow> cond \<Rightarrow> product \<Rightarrow> bool" where
  "matches L (NameRegex r) p = regexTest L r (name p)"
| "matches L (PriceGte n) p = js_le n (price p)"
| "matches L (PriceLte n) p = js_le (price p) n"
| "matches L (CategoryIn cs) p = (category p \<in> set (map (castFilter L) cs))"
| "matches L (CategoryEq c) p = (category p = castFilter L c)"
| "matches L (InStockEq b) p = (inStock p = Some b)"
| "matches L (SearchRegex r) p = (regexTest L r (name p) \<or> regexTest L r (description p))"

text \<open>A filter the store refuses: a pattern that is not well formed, a bound that is NaN.\<close>

fun cond_error :: "lib \<Rightarrow> cond \<Rightarrow> js_error option" where
  "cond_error L (NameRegex r) =
     (if regexValid L r then None else Some (MongoServerError L r))"
| "cond_error L (SearchRegex r) =
     (if regexValid L r then None else Some (MongoServerError L r))"
| "cond_error L (PriceGte n) =
     (if n = NaN then Some (CastError L ''price'' ''NaN'') else None)"
| "cond_error L (PriceLte n) =
     (if n = NaN then Some (CastError L ''price'' ''NaN'') else None)"
| "cond_error L _ = None"

fun query_error :: "lib \<Rightarrow> cond list \<Rightarrow> js_error option" where
  "query_error L [] = None"
| "query_error L (c # cs) =
     (case cond_error L c of Some e \<Rightarrow> Some e | None \<Rightarrow> query_error L cs)"

definition matching :: "lib \<Rightarrow> cond list \<Rightarrow> store \<Rightarrow> product list" where
  "matching L cs st = filter (\<lambda>p. list_all (\<lambda>c. matches L c p) cs) st"

definition countDocuments :: "lib \<Rightarrow> cond list \<Rightarrow> store \<Rightarrow> js_error + nat" where
  "countDocuments L cs st =
     (case query_error L cs of Some e \<Rightarrow> Inl e | None \<Rightarrow> Inr (length (matching L cs st)))"

definition find_all :: "lib \<Rightarrow> cond list \<Rightarrow> store \<Rightarrow> js_error + product list" where
  "find_all L cs st =
     (case query_error L cs of Some e \<Rightarrow> Inl e | None \<Rightarrow> Inr (matching L cs st))"

text \<open>A number that is a natural number.\<close>

definition as_nat :: "jsnum \<Rightarrow> nat option" where
  "as_nat x =
     (case x of Fin r \<Rightarrow> if 0 \<le> r \<and> of_int \<lfloor>r\<rfloor> = r then Some (nat \<lfloor>r\<rfloor>) else None
      | _ \<Rightarrow> None)"

text \<open>\<open>skip(s)\<close> and \<open>limit(l)\<close> on a result.\<close>

definition window :: "lib \<Rightarrow> jsnum \<Rightarrow> jsnum \<Rightarrow> product list \<Rightarrow> product list option" where
  "window L s l xs =
     (case (as_nat s, as_nat l) of
        (Some i, Some (Suc n)) \<Rightarrow> Some (take (Suc n) (drop i xs))
      | _ \<Rightarrow> oddWindow L s l xs)"

definition find_sorted ::
  "lib \<Rightarrow> cond list \<Rightarrow> string \<Rightarrow> jsnum \<Rightarrow> jsnum \<Rightarrow> store \<Rightarrow> js_error + product list" where
  "find_sorted L cs srt s l st =
     (case query_error L cs of
        Some e \<Rightarrow> Inl e
      | None \<Rightarrow>
          (case window L s l (sortBy L srt (matching L cs st)) of
             None \<Rightarrow> Inl (MongoServerError L ''window'')
           | Some xs \<Rightarrow> Inr xs))"

subsection \<open>Aggregation\<close>

fun js_add :: "jsnum \<Rightarrow> jsnum \<Rightarrow> jsnum" where
  "js_add x y = js_sub x (js_neg y)"

definition js_sum :: "jsnum list \<Rightarrow> jsnum" where
  "js_sum xs = fold (\<lambda>x acc. js_add acc x) xs (Fin 0)"

fun js_min :: "jsnum list \<Rightarrow> jsnum" where
  "js_min [] = NaN"
| "js_min (x # xs) = fold (\<lambda>y m. if js_lt y m then y else m) xs x"

fun js_max :: "jsnum list \<Rightarrow> jsnum" where
  "js_max [] = NaN"
| "js_max (x # xs) = fold (\<lambda>y m. if js_lt m y then y else m) xs x"

definition group_stats :: "store \<Rightarrow> string \<Rightarrow> category_stats" where
  "group_stats st c =
     (let ps = map price (filter (\<lambda>p. category p = c) st) in
      \<lparr>cs_id = c, count = length ps,
       avgPrice = js_div (js_sum ps) (Fin (of_nat (length ps))),
       minPrice = js_min ps, maxPrice = js_max ps, totalValue = js_sum ps\<rparr>)"

text \<open>The pipeline: one group for each category that occurs, the groups in ascending order.\<close>

definition aggregate :: "store \<Rightarrow> category_stats list" where
  "aggregate st = map (group_stats st) (sort (remdups (map category st)))"

section \<open>Auth Gate\<close>

text \<open>
  \<open>authenticate\<close> of \<open>server.js\<close>: one test for a missing and for a wrong key, answered
  with one response. \<open>Inr ()\<close> is the call of \<open>next()\<close>.
\<close>

definition authenticate :: "config \<Rightarrow> request \<Rightarrow> response + unit" where
  "authenticate cfg req =
     (let apiKey = header req ''x-api-key'' in
      if \<not> truthy_str apiKey \<or> apiKey \<noteq> API_KEY cfg
      then Inl \<lparr>status = UNAUTHORIZED, body = Message ''Invalid or missing API key''\<rparr>
      else Inr ())"

text \<open>
  \<open>authenticate\<close> of the middleware module: the key is read from the header or else from
  the query parameter \<open>apiKey\<close>, and the two failures are thrown as two errors.
\<close>

datatype api_error = ApiError nat string

definition authenticate_mw :: "config \<Rightarrow> request \<Rightarrow> api_error + unit" where
  "authenticate_mw cfg req =
     (let apiKey = js_or (header req ''x-api-key'') (param req ''apiKey'') in
      if \<not> truthy_str apiKey then Inl (ApiError UNAUTHORIZED ''API key is required'')
      else if apiKey \<noteq> API_KEY cfg then Inl (ApiError FORBIDDEN ''Invalid API key'')
      else Inr ())"

section \<open>Query Builder and Product Service: the controller\<close>

text \<open>
  A handler ends by responding or by passing an error on (\<open>next(error)\<close>); it returns the
  store as it leaves it.
\<close>

datatype outcome = Respond response | Next js_error

text \<open>A parameter with a numeric default, read as a number wherever it is used in arithmetic.\<close>

definition num_param :: "lib \<Rightarrow> request \<Rightarrow> string \<Rightarrow> rat \<Rightarrow> jsnum" where
  "num_param L req k d = (case param req k of None \<Rightarrow> Fin d | Some s \<Rightarrow> toNumber L s)"

definition str_param :: "request \<Rightarrow> string \<Rightarrow> string \<Rightarrow> string" where
  "str_param req k d = (case param req k of None \<Rightarrow> d | Some s \<Rightarrow> s)"

text \<open>What the guard \<open>if (x)\<close> lets through of a query parameter.\<close>

definition given :: "request \<Rightarrow> string \<Rightarrow> string option" where
  "given req k = (if truthy_str (param req k) then param req k else None)"

text \<open>\<open>s.split(c)\<close> for a separator of one character.\<close>

fun split :: "char \<Rightarrow> string \<Rightarrow> string list" where
  "split c [] = [[]]"
| "split c (x # xs) =
     (if x = c then [] # split c xs
      else (case split c xs of [] \<Rightarrow> [[x]] | y # ys \<Rightarrow> (x # y) # ys))"

definition build_query :: "lib \<Rightarrow> request \<Rightarrow> cond list" where
  "build_query L req =
     (case given req ''name'' of None \<Rightarrow> [] | Some n \<Rightarrow> [NameRegex n]) @
     (if given req ''minPrice'' \<noteq> None \<or> given req ''maxPrice'' \<noteq> None
      then (case given req ''minPrice'' of None \<Rightarrow> [] | Some m \<Rightarrow> [PriceGte (toNumber L m)]) @
           (case given req ''maxPrice'' of None \<Rightarrow> [] | Some m \<Rightarrow> [PriceLte (toNumber L m)])
      else []) @
     (case given req ''category'' of None \<Rightarrow> []
      | Some c \<Rightarrow> [CategoryIn (split CHR '','' c)]) @
     (if param req ''inStock'' = Some ''true'' \<or> param req ''inStock'' = Some ''false''
      then [InStockEq (param req ''inStock'' = Some ''true'')] else [])"

definition getProducts :: "lib \<Rightarrow> request \<Rightarrow> store \<Rightarrow> outcome" where
  "getProducts L req st =
     (let page = num_param L req ''page'' 1;
          limit = num_param L req ''limit'' 10;
          srt = str_param req ''sort'' ''-createdAt'';
          q = build_query L req
      in case countDocuments L q st of
           Inl e \<Rightarrow> Next e
         | Inr n \<Rightarrow>
             (case find_sorted L q srt (js_mul (js_sub page (Fin 1)) limit) limit st of
                Inl e \<Rightarrow> Next e
              | Inr products \<Rightarrow>
                  (let totalPages = js_ceil (js_div (Fin (of_nat n)) limit) in
                   Respond \<lparr>status = OK,
                            body = Listing \<lparr>l_count = length products, l_total = n,
                                            l_page = page, l_totalPages = totalPages,
                                            hasNextPage = js_lt page totalPages,
                                            hasPreviousPage = js_lt (Fin 1) page,
                                            l_data = products\<rparr>\<rparr>)))"

definition not_found_with_id :: "string \<Rightarrow> response" where
  "not_found_with_id i =
     \<lparr>status = NOT_FOUND, body = ErrorText (''Product not found with id of '' @ i)\<rparr>"

definition getProductById :: "lib \<Rightarrow> string \<Rightarrow> store \<Rightarrow> outcome" where
  "getProductById L i st =
     (case findById L st i of
        Inl e \<Rightarrow> Next e
      | Inr None \<Rightarrow> Respond (not_found_with_id i)
      | Inr (Some p) \<Rightarrow> Respond \<lparr>status = OK, body = Data p\<rparr>)"

definition createProduct :: "lib \<Rightarrow> runtime \<Rightarrow> request \<Rightarrow> store \<Rightarrow> outcome \<times> store" where
  "createProduct L rt req st =
     (let d = new_Product L rt (field req ''name'') (field req ''description'')
                (field req ''price'') (field req ''category'')
                (if field req ''inStock'' \<noteq> JUndefined then field req ''inStock''
                 else JBool True)
      in case save_new L d st of
           Inl e \<Rightarrow> (Next e, st)
         | Inr (p, st') \<Rightarrow> (Respond \<lparr>status = CREATED, body = Data p\<rparr>, st'))"

text \<open>The five conditional assignments of \<open>updateProduct\<close>.\<close>

definition assign_fields :: "lib \<Rightarrow> request \<Rightarrow> doc \<Rightarrow> doc" where
  "assign_fields L req d0 =
     (let d1 = (if truthy (field req ''name'') then assign_name L (field req ''name'') d0
                else d0);
          d2 = (if truthy (field req ''description'')
                then assign_description L (field req ''description'') d1 else d1);
          d3 = (if truthy (field req ''price'') then assign_price L (field req ''price'') d2
                else d2);
          d4 = (if truthy (field req ''category'')
                then assign_category L (field req ''category'') d3 else d3)
      in if field req ''inStock'' \<noteq> JUndefined then assign_inStock (field req ''inStock'') d4
         else d4)"

definition updateProduct ::
  "lib \<Rightarrow> runtime \<Rightarrow> string \<Rightarrow> request \<Rightarrow> store \<Rightarrow> outcome \<times> store" where
  "updateProduct L rt i req st =
     (case findById L st i of
        Inl e \<Rightarrow> (Next e, st)
      | Inr None \<Rightarrow> (Respond (not_found_with_id i), st)
      | Inr (Some p) \<Rightarrow>
          (case save L rt p (assign_fields L req \<lparr>cur = p, bad = []\<rparr>) st of
             Inl e \<Rightarrow> (Next e, st)
           | Inr (p', st') \<Rightarrow> (Respond \<lparr>status = OK, body = Data p'\<rparr>, st')))"

definition deleteProduct :: "lib \<Rightarrow> string \<Rightarrow> store \<Rightarrow> outcome \<times> store" where
  "deleteProduct L i st =
     (case findById L st i of
        Inl e \<Rightarrow> (Next e, st)
      | Inr None \<Rightarrow> (Respond (not_found_with_id i), st)
      | Inr (Some p) \<Rightarrow> (Respond \<lparr>status = OK, body = NoData\<rparr>, deleteOne (pid p) st))"

definition inStock_true :: "store \<Rightarrow> nat" where
  "inStock_true st = length (filter (\<lambda>p. inStock p = Some True) st)"

definition getProductStats :: "store \<Rightarrow> outcome" where
  "getProductStats st =
     (let stats = aggregate st;
          tot = fold (\<lambda>curr acc. acc + int (count curr)) stats 0;
          inStockN = int (inStock_true st)
      in Respond \<lparr>status = OK,
                  body = Stats \<lparr>totalProducts = tot, inStockCount = inStockN,
                                outOfStock = tot - inStockN, byCategory = stats\<rparr>\<rparr>)"

section \<open>The script \<open>server.js\<close>\<close>

subsection \<open>Error Responder\<close>

text \<open>
  \<open>err.statusCode || 500\<close> and \<open>err.message || 'Internal Server Error'\<close>; the stack is
  part of the body when \<open>NODE_ENV\<close> is the string \<open>development\<close>.
\<close>

definition errorHandler :: "config \<Rightarrow> js_error \<Rightarrow> response" where
  "errorHandler cfg err =
     (let statusCode = (case statusCode err of
                          None \<Rightarrow> INTERNAL_SERVER_ERROR
                        | Some c \<Rightarrow> if c = 0 then INTERNAL_SERVER_ERROR else c);
          msg = (if message err = [] then ''Internal Server Error'' else message err)
      in \<lparr>status = statusCode,
          body = MessageStack msg
                   (if NODE_ENV cfg = Some ''development'' then Some (stack err) else None)\<rparr>)"

subsection \<open>Store operations of the routes\<close>

text \<open>
  \<open>findByIdAndUpdate\<close> with \<open>runValidators\<close>: the fields of the body that are not
  \<open>undefined\<close> are cast and validated, then set on the document with the given identifier,
  if there is one. A value that cannot be cast is a cast error; a value that is cast to
  \<open>null\<close> fails the validator of a required path.
\<close>

definition cast_fails :: "lib \<Rightarrow> request \<Rightarrow> js_error option" where
  "cast_fails L req =
     (if (case field req ''price'' of
            JNum n \<Rightarrow> n = NaN
          | JStr s \<Rightarrow> s \<noteq> [] \<and> toNumber L s = NaN
          | _ \<Rightarrow> False)
      then Some (CastError L ''price'' (toString L (field req ''price'')))
      else if castBoolean (field req ''inStock'') = None
      then Some (CastError L ''inStock'' (toString L (field req ''inStock'')))
      else None)"

definition update_invalid :: "lib \<Rightarrow> request \<Rightarrow> string list" where
  "update_invalid L req =
     (if field req ''name'' \<noteq> JUndefined \<and>
         (case set_name L (field req ''name'') of None \<Rightarrow> True | Some s \<Rightarrow> \<not> valid_name s)
      then [''name''] else []) @
     (if field req ''description'' \<noteq> JUndefined \<and>
         (case set_description L (field req ''description'') of
            None \<Rightarrow> True | Some s \<Rightarrow> \<not> valid_description s)
      then [''description''] else []) @
     (if field req ''price'' \<noteq> JUndefined \<and>
         (case castNumber L (field req ''price'') of None \<Rightarrow> True | Some n \<Rightarrow> \<not> valid_price n)
      then [''price''] else []) @
     (if field req ''category'' \<noteq> JUndefined \<and>
         (case set_category L (field req ''category'') of
            None \<Rightarrow> True | Some s \<Rightarrow> \<not> valid_category s)
      then [''category''] else [])"

definition apply_update :: "lib \<Rightarrow> runtime \<Rightarrow> request \<Rightarrow> product \<Rightarrow> product" where
  "apply_update L rt req p =
     p\<lparr>name := (case set_name L (field req ''name'') of None \<Rightarrow> name p | Some s \<Rightarrow> s),
       description := (case set_description L (field req ''description'') of
                         None \<Rightarrow> description p | Some s \<Rightarrow> s),
       price := (case castNumber L (field req ''price'') of None \<Rightarrow> price p | Some n \<Rightarrow> n),
       category := (case set_category L (field req ''category'') of
                      None \<Rightarrow> category p | Some s \<Rightarrow> s),
       inStock := (if field req ''inStock'' = JUndefined then inStock p
                   else (case castBoolean (field req ''inStock'') of
                           None \<Rightarrow> inStock p | Some b \<Rightarrow> b)),
       updatedAt := now rt\<rparr>"

definition findByIdAndUpdate ::
  "lib \<Rightarrow> runtime \<Rightarrow> string \<Rightarrow> request \<Rightarrow> store \<Rightarrow> js_error + (product option \<times> store)" where
  "findByIdAndUpdate L rt i req st =
     (case castObjectId L i of
        None \<Rightarrow> Inl (CastError L ''_id'' i)
      | Some j \<Rightarrow>
          (case cast_fails L req of
             Some e \<Rightarrow> Inl e
           | None \<Rightarrow>
               if update_invalid L req \<noteq> []
               then Inl (SchemaValidationError L (update_invalid L req))
               else (case find (\<lambda>p. pid p = j) st of
                       None \<Rightarrow> Inr (None, st)
                     | Some p \<Rightarrow>
                         Inr (Some (apply_update L rt req p),
                              replace j (apply_update L rt req p) st))))"

definition findByIdAndDelete ::
  "lib \<Rightarrow> string \<Rightarrow> store \<Rightarrow> js_error + (product option \<times> store)" where
  "findByIdAndDelete L i st =
     (case findById L st i of
        Inl e \<Rightarrow> Inl e
      | Inr None \<Rightarrow> Inr (None, st)
      | Inr (Some p) \<Rightarrow> Inr (Some p, deleteOne (pid p) st))"

subsection \<open>Route handlers\<close>

definition app_welcome :: response where
  "app_welcome =
     \<lparr>status = OK,
      body = Text ''Welcome to the Product API! Go to /api/products to see all products.''\<rparr>"

definition app_query :: "request \<Rightarrow> cond list" where
  "app_query req =
     (case given req ''category'' of None \<Rightarrow> [] | Some c \<Rightarrow> [CategoryEq c]) @
     (if param req ''inStock'' = Some ''true'' \<or> param req ''inStock'' = Some ''false''
      then [InStockEq (param req ''inStock'' = Some ''true'')] else []) @
     (case given req ''search'' of None \<Rightarrow> [] | Some x \<Rightarrow> [SearchRegex x])"

definition app_get_products :: "lib \<Rightarrow> request \<Rightarrow> store \<Rightarrow> outcome" where
  "app_get_products L req st =
     (let page = num_param L req ''page'' 1;
          limit = num_param L req ''limit'' 10;
          srt = str_param req ''sort'' ''-createdAt'';
          q = app_query req
      in case countDocuments L q st of
           Inl e \<Rightarrow> Next e
         | Inr n \<Rightarrow>
             (case find_sorted L q srt (js_mul (js_sub page (Fin 1)) limit)
                     (js_mul limit (Fin 1)) st of
                Inl e \<Rightarrow> Next e
              | Inr products \<Rightarrow>
                  Respond \<lparr>status = OK,
                           body = Page \<lparr>p_total = n,
                                        p_totalPages = js_ceil (js_div (Fin (of_nat n)) limit),
                                        currentPage = (case param req ''page'' of
                                                         None \<Rightarrow> JNum (Fin 1)
                                                       | Some x \<Rightarrow> JStr x),
                                        p_data = products\<rparr>\<rparr>))"

definition app_get_product :: "lib \<Rightarrow> string \<Rightarrow> store \<Rightarrow> outcome" where
  "app_get_product L i st =
     (case findById L st i of
        Inl e \<Rightarrow> Next e
      | Inr None \<Rightarrow> Next (NotFoundError L ''Product not found'')
      | Inr (Some p) \<Rightarrow> Respond \<lparr>status = OK, body = Data p\<rparr>)"

definition app_post_product ::
  "lib \<Rightarrow> config \<Rightarrow> runtime \<Rightarrow> request \<Rightarrow> store \<Rightarrow> outcome \<times> store" where
  "app_post_product L cfg rt req st =
     (case authenticate cfg req of
        Inl r \<Rightarrow> (Respond r, st)
      | Inr _ \<Rightarrow>
          (case validateProduct L req of
             Inl r \<Rightarrow> (Respond r, st)
           | Inr _ \<Rightarrow>
               (case save_new L (new_Product L rt (field req ''name'')
                                   (field req ''description'') (field req ''price'')
                                   (field req ''category'') (field req ''inStock'')) st of
                  Inl e \<Rightarrow> (Next e, st)
                | Inr (p, st') \<Rightarrow> (Respond \<lparr>status = CREATED, body = Data p\<rparr>, st'))))"

definition app_put_product ::
  "lib \<Rightarrow> config \<Rightarrow> runtime \<Rightarrow> string \<Rightarrow> request \<Rightarrow> store \<Rightarrow> outcome \<times> store" where
  "app_put_product L cfg rt i req st =
     (case authenticate cfg req of
        Inl r \<Rightarrow> (Respond r, st)
      | Inr _ \<Rightarrow>
          (case validateProduct L req of
             Inl r \<Rightarrow> (Respond r, st)
           | Inr _ \<Rightarrow>
               (case findByIdAndUpdate L rt i req st of
                  Inl e \<Rightarrow> (Next e, st)
                | Inr (None, _) \<Rightarrow> (Next (NotFoundError L ''Product not found''), st)
                | Inr (Some p, st') \<Rightarrow> (Respond \<lparr>status = OK, body = Data p\<rparr>, st'))))"

definition app_delete_product ::
  "lib \<Rightarrow> config \<Rightarrow> string \<Rightarrow> request \<Rightarrow> store \<Rightarrow> outcome \<times> store" where
  "app_delete_product L cfg i req st =
     (case authenticate cfg req of
        Inl r \<Rightarrow> (Respond r, st)
      | Inr _ \<Rightarrow>
          (case findByIdAndDelete L i st of
             Inl e \<Rightarrow> (Next e, st)
           | Inr (None, _) \<Rightarrow> (Next (NotFoundError L ''Product not found''), st)
           | Inr (Some p, st') \<Rightarrow> (Respond \<lparr>status = NO_CONTENT, body = Empty\<rparr>, st')))"

definition app_get_statistics :: "store \<Rightarrow> outcome" where
  "app_get_statistics st =
     Respond \<lparr>status = OK,
              body = Stats \<lparr>totalProducts = int (length st),
                            inStockCount = int (inStock_true st),
                            outOfStock = int (length st) - int (inStock_true st),
                            byCategory = aggregate st\<rparr>\<rparr>"

definition app_get_search :: "lib \<Rightarrow> request \<Rightarrow> store \<Rightarrow> outcome" where
  "app_get_search L req st =
     (case given req ''q'' of
        None \<Rightarrow> Respond \<lparr>status = BAD_REQUEST,
                          body = Message (''Search query parameter '' @ [CHR 0x22] @ ''q'' @
                                           [CHR 0x22] @ '' is required'')\<rparr>
      | Some q \<Rightarrow>
          (case find_all L [SearchRegex q] st of
             Inl e \<Rightarrow> Next e
           | Inr products \<Rightarrow>
               Respond \<lparr>status = OK, body = Found (length products) products\<rparr>))"

subsection \<open>HTTP Router\<close>

text \<open>
  The routes in the order in which the script registers them; a request goes to the first
  route whose method and path pattern fit. A segment of a pattern is a literal or a
  parameter, which fits any segment. A request that fits no route reaches the handler that
  throws \<open>Endpoint not found\<close>. A literal segment fits without regard to the case of
  the letters A to Z, as the routes are not declared case-sensitive.
\<close>

definition ascii_lower :: "char \<Rightarrow> char" where
  "ascii_lower c =
     (if 65 \<le> (of_char c :: nat) \<and> (of_char c :: nat) \<le> 90 then char_of (of_char c + 32 :: nat)
      else c)"

datatype seg = Lit string | Par

datatype endpoint =
    Welcome | ListProducts | GetProduct | CreateProduct | UpdateProduct | DeleteProduct
  | Statistics | Search

definition routes :: "(http_method \<times> seg list \<times> endpoint) list" where
  "routes =
     [(GET, [], Welcome),
      (GET, [Lit ''api'', Lit ''products''], ListProducts),
      (GET, [Lit ''api'', Lit ''products'', Par], GetProduct),
      (POST, [Lit ''api'', Lit ''products''], CreateProduct),
      (PUT, [Lit ''api'', Lit ''products'', Par], UpdateProduct),
      (DELETE, [Lit ''api'', Lit ''products'', Par], DeleteProduct),
      (GET, [Lit ''api'', Lit ''products'', Lit ''statistics''], Statistics),
      (GET, [Lit ''api'', Lit ''products'', Lit ''search''], Search)]"

text \<open>The values of the parameters of a pattern, when the path fits it.\<close>

fun match_path :: "seg list \<Rightarrow> string list \<Rightarrow> string list option" where
  "match_path [] [] = Some []"
| "match_path (Lit l # ps) (x # xs) =
     (if map ascii_lower l = map ascii_lower x then match_path ps xs else None)"
| "match_path (Par # ps) (x # xs) = map_option ((#) x) (match_path ps xs)"
| "match_path _ _ = None"

definition dispatch :: "request \<Rightarrow> (endpoint \<times> string list) option" where
  "dispatch req =
     (case find (\<lambda>(m, pat, h). m = meth req \<and> match_path pat (url_path req) \<noteq> None) routes of
        None \<Rightarrow> None
      | Some (m, pat, h) \<Rightarrow>
          (case match_path pat (url_path req) of None \<Rightarrow> None | Some ps \<Rightarrow> Some (h, ps)))"

text \<open>\<open>req.params.id\<close>.\<close>

definition params_id :: "string list \<Rightarrow> string" where
  "params_id ps = (case ps of [] \<Rightarrow> [] | i # _ \<Rightarrow> i)"

fun run ::
  "lib \<Rightarrow> config \<Rightarrow> runtime \<Rightarrow> endpoint \<Rightarrow> string list \<Rightarrow> request \<Rightarrow> store \<Rightarrow> outcome \<times> store" where
  "run L cfg rt Welcome ps req st = (Respond app_welcome, st)"
| "run L cfg rt ListProducts ps req st = (app_get_products L req st, st)"
| "run L cfg rt GetProduct ps req st = (app_get_product L (params_id ps) st, st)"
| "run L cfg rt CreateProduct ps req st = app_post_product L cfg rt req st"
| "run L cfg rt UpdateProduct ps req st = app_put_product L cfg rt (params_id ps) req st"
| "run L cfg rt DeleteProduct ps req st = app_delete_product L cfg (params_id ps) req st"
| "run L cfg rt Statistics ps req st = (app_get_statistics st, st)"
| "run L cfg rt Search ps req st = (app_get_search L req st, st)"

text \<open>The application: a request and the store in, the response and the store out.\<close>

definition app :: "lib \<Rightarrow> config \<Rightarrow> runtime \<Rightarrow> request \<Rightarrow> store \<Rightarrow> response \<times> store" where
  "app L cfg rt req st =
     (case dispatch req of
        None \<Rightarrow> (errorHandler cfg (NotFoundError L ''Endpoint not found''), st)
      | Some (h, ps) \<Rightarrow>
          (case run L cfg rt h ps req st of
             (Respond r, st') \<Rightarrow> (r, st')
           | (Next e, st') \<Rightarrow> (errorHandler cfg e, st')))"

section \<open>A library for examples\<close>

text \<open>
  One library, to evaluate the handlers at examples: decimal numerals with an optional
  minus sign and the empty string are converted as JavaScript converts them, every other
  string to NaN; whole numbers are printed in decimal; \<open>trim\<close> removes blanks;
  \<open>toLowerCase\<close> maps the letters A to Z; a pattern is taken literally; an identifier is
  well formed when it has 24 hexadecimal digits, and is held with the digits a to f in
  lower case; a filter value for \<open>category\<close> is put in lower case, as the schema's setter
  does; a sort string orders by a time stamp or a text; a limit of 0 is no limit.
\<close>

definition digit_val :: "char \<Rightarrow> nat" where
  "digit_val c = of_char c - 48"

definition dec :: "string \<Rightarrow> nat" where
  "dec s = foldl (\<lambda>a c. 10 * a + digit_val c) 0 s"

definition toNumber0 :: "string \<Rightarrow> jsnum" where
  "toNumber0 s =
     (case s of
        [] \<Rightarrow> Fin 0
      | c # r \<Rightarrow>
          if c = CHR ''-'' \<and> r \<noteq> [] \<and> list_all isDigit r then Fin (- of_nat (dec r))
          else if list_all isDigit s then Fin (of_nat (dec s))
          else NaN)"

fun digits :: "nat \<Rightarrow> nat \<Rightarrow> string" where
  "digits 0 n = []"
| "digits (Suc k) n =
     (if n < 10 then [char_of (48 + n)] else digits k (n div 10) @ [char_of (48 + n mod 10)])"

definition numToString0 :: "jsnum \<Rightarrow> string" where
  "numToString0 x =
     (case x of
        Fin r \<Rightarrow>
          if of_int \<lfloor>r\<rfloor> = r
          then (if r < 0 then ''-'' else []) @ digits (Suc (nat \<bar>\<lfloor>r\<rfloor>\<bar>)) (nat \<bar>\<lfloor>r\<rfloor>\<bar>)
          else ''?''
      | PInf \<Rightarrow> ''Infinity''
      | NInf \<Rightarrow> ''-Infinity''
      | NaN \<Rightarrow> ''NaN'')"

definition trim0 :: "string \<Rightarrow> string" where
  "trim0 s = rev (dropWhile (\<lambda>c. c = CHR '' '') (rev (dropWhile (\<lambda>c. c = CHR '' '') s)))"

text \<open>
  The order of a sort string: a field name, after \<open>-\<close> in descending order. The two
  time stamps and the three texts are known; any other string leaves the order as it is.
\<close>

definition sort_field :: "string \<Rightarrow> product list \<Rightarrow> product list" where
  "sort_field f xs =
     (if f = ''createdAt'' then sort_key createdAt xs
      else if f = ''updatedAt'' then sort_key updatedAt xs
      else if f = ''name'' then sort_key name xs
      else if f = ''description'' then sort_key description xs
      else if f = ''category'' then sort_key category xs
      else xs)"

definition sortBy0 :: "string \<Rightarrow> product list \<Rightarrow> product list" where
  "sortBy0 s xs =
     (case s of
        [] \<Rightarrow> xs
      | c # f \<Rightarrow> if c = CHR ''-'' then rev (sort_field f (rev xs)) else sort_field s xs)"

fun occurs :: "string \<Rightarrow> string \<Rightarrow> bool" where
  "occurs r [] = (r = [])"
| "occurs r (x # xs) = (take (length r) (x # xs) = r \<or> occurs r xs)"

definition isHex :: "char \<Rightarrow> bool" where
  "isHex c = (c \<in> set ''0123456789abcdefABCDEF'')"

definition lib0 :: lib where
  "lib0 =
     \<lparr>toNumber = toNumber0,
      numToString = numToString0,
      trim = trim0,
      toLowerCase = map ascii_lower,
      regexValid = (\<lambda>r. True),
      regexTest = (\<lambda>r s. occurs (map ascii_lower r) (map ascii_lower s)),
      castObjectId = (\<lambda>s. if length s = 24 \<and> list_all isHex s
                          then Some (map ascii_lower s) else None),
      castFilter = map ascii_lower,
      sortBy = sortBy0,
      oddWindow = (\<lambda>s l xs. case (as_nat s, as_nat l) of
                               (Some i, Some 0) \<Rightarrow> Some (drop i xs) | _ \<Rightarrow> None),
      errorText = (\<lambda>kind args. kind),
      captureStack = (\<lambda>m. ''Error: '' @ m)\<rparr>"

text \<open>Two documents and a store that holds them.\<close>

definition laptop :: product where
  "laptop =
     \<lparr>pid = ''5f8d0f4d77c19d4e5a7b8c3d'', name = ''Laptop'', description = ''Fast'',
      price = Fin 1299, category = ''electronics'', inStock = Some True,
      createdAt = 1, updatedAt = 1\<rparr>"

definition shirt :: product where
  "shirt =
     \<lparr>pid = ''5f8d0f4d77c19d4e5a7b8c3e'', name = ''Shirt'', description = ''Cotton'',
      price = Fin 20, category = ''clothing'', inStock = Some False,
      createdAt = 2, updatedAt = 2\<rparr>"

definition store0 :: store where
  "store0 = [laptop, shirt]"

definition cfg0 :: config where
  "cfg0 = \<lparr>API_KEY = Some ''secret'', NODE_ENV = Some ''test''\<rparr>"

definition rt0 :: runtime where
  "rt0 = \<lparr>now = 7, newId = ''5f8d0f4d77c19d4e5a7b8c3f''\<rparr>"

text \<open>Two update requests for the first document: a price alone, and all but \<open>inStock\<close>.\<close>

definition price_only :: request where
  "price_only =
     \<lparr>meth = PUT, url_path = [''api'', ''products'', ''5f8d0f4d77c19d4e5a7b8c3d''],
      headers = [], query = [], reqbody = [(''price'', JNum (Fin 5))]\<rparr>"

definition full_update :: request where
  "full_update =
     \<lparr>meth = PUT, url_path = [''api'', ''products'', ''5f8d0f4d77c19d4e5a7b8c3d''],
      headers = [(''x-api-key'', ''secret'')], query = [],
      reqbody = [(''name'', JStr ''Laptop 2''), (''description'', JStr ''Faster''),
                 (''price'', JNum (Fin 1500)), (''category'', JStr ''Electronics'')]\<rparr>"

text \<open>Updates of the first document with a price 0: as a number, and as a string.\<close>

definition price_zero :: request where
  "price_zero =
     \<lparr>meth = PUT, url_path = [''api'', ''products'', ''5f8d0f4d77c19d4e5a7b8c3d''],
      headers = [], query = [],
      reqbody = [(''price'', JNum (Fin 0)), (''name'', JStr []), (''inStock'', JBool False)]\<rparr>"

definition price_zero_string :: request where
  "price_zero_string =
     \<lparr>meth = PUT, url_path = [''api'', ''products'', ''5f8d0f4d77c19d4e5a7b8c3d''],
      headers = [], query = [], reqbody = [(''price'', JStr ''0'')]\<rparr>"

text \<open>Two create requests: a mug for 5, and a mug for \<open>-5\<close>.\<close>

definition mug :: request where
  "mug =
     \<lparr>meth = POST, url_path = [''api'', ''products''],
      headers = [(''x-api-key'', ''secret'')], query = [],
      reqbody = [(''name'', JStr ''Mug''), (''description'', JStr ''Big''),
                 (''price'', JNum (Fin 5)), (''category'', JStr ''Kitchen'')]\<rparr>"

definition mug_negative :: request where
  "mug_negative =
     \<lparr>meth = POST, url_path = [''api'', ''products''],
      headers = [(''x-api-key'', ''secret'')], query = [],
      reqbody = [(''name'', JStr ''Mug''), (''description'', JStr ''Big''),
                 (''price'', JNum (Fin (- 5))), (''category'', JStr ''Kitchen'')]\<rparr>"

text \<open>The document that the first of them creates.\<close>

definition mug_created :: product where
  "mug_created =
     \<lparr>pid = ''5f8d0f4d77c19d4e5a7b8c3f'', name = ''Mug'', description = ''Big'',
      price = Fin 5, category = ''kitchen'', inStock = Some True,
      createdAt = 7, updatedAt = 7\<rparr>"

text \<open>The statistics of the example store.\<close>

definition stats0 :: stats_data where
  "stats0 =
     \<lparr>totalProducts = 2, inStockCount = 1, outOfStock = 1,
      byCategory =
        [\<lparr>cs_id = ''clothing'', count = 1, avgPrice = Fin 20, minPrice = Fin 20,
          maxPrice = Fin 20, totalValue = Fin 20\<rparr>,
         \<lparr>cs_id = ''electronics'', count = 1, avgPrice = Fin 1299, minPrice = Fin 1299,
          maxPrice = Fin 1299, totalValue = Fin 1299\<rparr>]\<rparr>"


definition two_categories :: request where
  "two_categories =
     \<lparr>meth = GET, url_path = [''api'', ''products''], headers = [],
      query = [(''category'', ''electronics,clothing''), (''inStock'', ''true'')],
      reqbody = []\<rparr>"


definition two_categories_listing :: listing where
  "two_categories_listing =
     \<lparr>l_count = 1, l_total = 1, l_page = Fin 1, l_totalPages = Fin 1,
      hasNextPage = False, hasPreviousPage = False, l_data = [laptop]\<rparr>"

text \<open>Three mutating requests: a create without a key, an update and a delete with a
  wrong key.\<close>

definition create_no_key :: request where
  "create_no_key =
     \<lparr>meth = POST, url_path = [''api'', ''products''], headers = [], query = [],
      reqbody = []\<rparr>"

definition update_wrong_key :: request where
  "update_wrong_key =
     \<lparr>meth = PUT, url_path = [''api'', ''products'', ''5f8d0f4d77c19d4e5a7b8c3d''],
      headers = [(''x-api-key'', ''wrong'')], query = [], reqbody = []\<rparr>"

definition delete_wrong_key :: request where
  "delete_wrong_key =
     \<lparr>meth = DELETE, url_path = [''api'', ''products'', ''5f8d0f4d77c19d4e5a7b8c3d''],
      headers = [(''x-api-key'', ''wrong'')], query = [], reqbody = []\<rparr>"

section \<open>Reading a response\<close>

text \<open>The diagnostic trace in the body of an error response, if it has one.\<close>

definition trace :: "response \<Rightarrow> string option" where
  "trace r = (case body r of MessageStack m t \<Rightarrow> t | _ \<Rightarrow> None)"

section \<open>Reading an update\<close>

text \<open>
  A document after an update, against the document before it: the identifier and the
  time of creation are as they were, and so is every declared field that the partial omits.
\<close>

definition omitted_retained :: "request \<Rightarrow> product \<Rightarrow> product \<Rightarrow> bool" where
  "omitted_retained req p p' =
     (pid p' = pid p \<and> createdAt p' = createdAt p \<and>
      (field req ''name'' = JUndefined \<longrightarrow> name p' = name p) \<and>
      (field req ''description'' = JUndefined \<longrightarrow> description p' = description p) \<and>
      (field req ''price'' = JUndefined \<longrightarrow> price p' = price p) \<and>
      (field req ''category'' = JUndefined \<longrightarrow> category p' = category p) \<and>
      (field req ''inStock'' = JUndefined \<longrightarrow> inStock p' = inStock p))"

definition empty_partial :: "request \<Rightarrow> bool" where
  "empty_partial req =
     (field req ''name'' = JUndefined \<and> field req ''description'' = JUndefined \<and>
      field req ''price'' = JUndefined \<and> field req ''category'' = JUndefined \<and>
      field req ''inStock'' = JUndefined)"

text \<open>
  The same for the fields that the partial gives a falsy value: \<open>undefined\<close>, \<open>null\<close>,
  \<open>false\<close>, the number 0, NaN or the empty string.
\<close>

definition falsy_retained :: "request \<Rightarrow> product \<Rightarrow> product \<Rightarrow> bool" where
  "falsy_retained req p p' =
     ((\<not> truthy (field req ''name'') \<longrightarrow> name p' = name p) \<and>
      (\<not> truthy (field req ''description'') \<longrightarrow> description p' = description p) \<and>
      (\<not> truthy (field req ''price'') \<longrightarrow> price p' = price p) \<and>
      (\<not> truthy (field req ''category'') \<longrightarrow> category p' = category p))"

section \<open>Reading a create\<close>

text \<open>The two invariants of a stored product that C5 names.\<close>

definition product_invariant :: "product \<Rightarrow> bool" where
  "product_invariant p = (js_le (Fin 0) (price p) \<and> category p \<in> set categories)"

text \<open>
  A payload that respects them: its price is cast to a number that is not negative, and
  its category is cast, in lower case, to one of the six names.
\<close>

definition payload_ok :: "lib \<Rightarrow> request \<Rightarrow> bool" where
  "payload_ok L req =
     ((case castNumber L (field req ''price'') of None \<Rightarrow> False | Some n \<Rightarrow> js_le (Fin 0) n) \<and>
      (case set_category L (field req ''category'') of
         None \<Rightarrow> False | Some c \<Rightarrow> c \<in> set categories))"

section \<open>Reading a list request\<close>

text \<open>The request without its parameter \<open>category\<close>.\<close>

definition without_category :: "request \<Rightarrow> request" where
  "without_category req = req\<lparr>query := filter (\<lambda>kv. fst kv \<noteq> ''category'') (query req)\<rparr>"

text \<open>The categories that the parameter lists, as the store casts them in a filter.\<close>

definition listed :: "lib \<Rightarrow> string \<Rightarrow> string set" where
  "listed L c = set (map (castFilter L) (split CHR '','' c))"

text \<open>A library whose sort reorders: it keeps the documents and their number.\<close>

definition sort_reorders :: "lib \<Rightarrow> bool" where
  "sort_reorders L =
     (\<forall>s xs. set (sortBy L s xs) = set xs \<and> length (sortBy L s xs) = length xs)"

section \<open>Properties of the Auth Gate\<close>

text \<open>The three mutating requests and the routes of \<open>server.js\<close> they go to.\<close>

lemma dispatch_mutating:
  "(meth req = POST \<and> url_path req = [''api'', ''products''] \<longrightarrow>
      dispatch req = Some (CreateProduct, [])) \<and>
   (meth req = PUT \<and> url_path req = [''api'', ''products'', i] \<longrightarrow>
      dispatch req = Some (UpdateProduct, [i])) \<and>
   (meth req = DELETE \<and> url_path req = [''api'', ''products'', i] \<longrightarrow>
      dispatch req = Some (DeleteProduct, [i]))"
  by (simp add: dispatch_def routes_def)

lemma authenticate_rejects:
  assumes "\<not> truthy_str (header req ''x-api-key'') \<or> header req ''x-api-key'' \<noteq> API_KEY cfg"
  shows "authenticate cfg req =
           Inl \<lparr>status = UNAUTHORIZED, body = Message ''Invalid or missing API key''\<rparr>"
  using assms by (simp add: authenticate_def Let_def)

text \<open>A request that the gate of \<open>server.js\<close> refuses, on any of the three mutating
  routes, is answered by the gate, and the store is as it was.\<close>

lemma app_gated:
  assumes d: "dispatch req = Some (h, ps)"
    and h: "h = CreateProduct \<or> h = UpdateProduct \<or> h = DeleteProduct"
    and r: "authenticate cfg req = Inl r"
  shows "app L cfg rt req st = (r, st)"
  using h
proof (elim disjE)
  assume "h = CreateProduct"
  with d r show ?thesis
    by (simp add: app_def app_post_product_def)
next
  assume "h = UpdateProduct"
  with d r show ?thesis
    by (simp add: app_def app_put_product_def)
next
  assume "h = DeleteProduct"
  with d r show ?thesis
    by (simp add: app_def app_delete_product_def)
qed

text \<open>
  C1, as the code has it. The middleware module fails with 401 when no (non-empty) key is
  sent, in the header or in the query, and with 403 when a key is sent that differs from
  the configured secret. The gate of \<open>server.js\<close> answers 401 in both cases, and it
  guards the create, update and delete routes of \<open>server.js\<close>: every request that goes
  to one of them without the configured key in its header is answered with that 401
  response and leaves the store as it was.
\<close>

theorem authenticate_status:
  "(\<not> truthy_str (js_or (header req ''x-api-key'') (param req ''apiKey'')) \<longrightarrow>
      authenticate_mw cfg req = Inl (ApiError UNAUTHORIZED ''API key is required'')) \<and>
   (truthy_str (js_or (header req ''x-api-key'') (param req ''apiKey'')) \<and>
    js_or (header req ''x-api-key'') (param req ''apiKey'') \<noteq> API_KEY cfg \<longrightarrow>
      authenticate_mw cfg req = Inl (ApiError FORBIDDEN ''Invalid API key'')) \<and>
   (\<not> truthy_str (header req ''x-api-key'') \<or> header req ''x-api-key'' \<noteq> API_KEY cfg \<longrightarrow>
      authenticate cfg req =
        Inl \<lparr>status = UNAUTHORIZED, body = Message ''Invalid or missing API key''\<rparr>) \<and>
   (dispatch req = Some (h, ps) \<and>
    (h = CreateProduct \<or> h = UpdateProduct \<or> h = DeleteProduct) \<and>
    (\<not> truthy_str (header req ''x-api-key'') \<or> header req ''x-api-key'' \<noteq> API_KEY cfg) \<longrightarrow>
      app L cfg rt req st =
        (\<lparr>status = UNAUTHORIZED, body = Message ''Invalid or missing API key''\<rparr>, st)) \<and>
   (meth req = POST \<and> url_path req = [''api'', ''products''] \<longrightarrow>
      dispatch req = Some (CreateProduct, [])) \<and>
   (meth req = PUT \<and> url_path req = [''api'', ''products'', i] \<longrightarrow>
      dispatch req = Some (UpdateProduct, [i])) \<and>
   (meth req = DELETE \<and> url_path req = [''api'', ''products'', i] \<longrightarrow>
      dispatch req = Some (DeleteProduct, [i]))"
proof -
  have mw: "(\<not> truthy_str (js_or (header req ''x-api-key'') (param req ''apiKey'')) \<longrightarrow>
      authenticate_mw cfg req = Inl (ApiError UNAUTHORIZED ''API key is required'')) \<and>
   (truthy_str (js_or (header req ''x-api-key'') (param req ''apiKey'')) \<and>
    js_or (header req ''x-api-key'') (param req ''apiKey'') \<noteq> API_KEY cfg \<longrightarrow>
      authenticate_mw cfg req = Inl (ApiError FORBIDDEN ''Invalid API key''))"
    by (simp add: authenticate_mw_def Let_def)
  have gate: "authenticate cfg req =
        Inl \<lparr>status = UNAUTHORIZED, body = Message ''Invalid or missing API key''\<rparr>"
    if "\<not> truthy_str (header req ''x-api-key'') \<or> header req ''x-api-key'' \<noteq> API_KEY cfg"
    using that by (rule authenticate_rejects)
  have routes: "app L cfg rt req st =
        (\<lparr>status = UNAUTHORIZED, body = Message ''Invalid or missing API key''\<rparr>, st)"
    if "dispatch req = Some (h, ps) \<and>
        (h = CreateProduct \<or> h = UpdateProduct \<or> h = DeleteProduct) \<and>
        (\<not> truthy_str (header req ''x-api-key'') \<or> header req ''x-api-key'' \<noteq> API_KEY cfg)"
    using that app_gated [of req h ps cfg _ L rt st] gate by blast
  from mw gate routes dispatch_mutating [of req i] show ?thesis
    by blast
qed

text \<open>
  The theorem at a create without a key, and at an update and a delete with the key
  \<open>wrong\<close>, the secret being \<open>secret\<close>.
\<close>

theorem authenticate_status_witness:
  "\<not> truthy_str (js_or (header create_no_key ''x-api-key'') (param create_no_key ''apiKey'')) \<and>
   authenticate_mw cfg0 create_no_key = Inl (ApiError UNAUTHORIZED ''API key is required'') \<and>
   truthy_str (js_or (header delete_wrong_key ''x-api-key'') (param delete_wrong_key ''apiKey'')) \<and>
   js_or (header delete_wrong_key ''x-api-key'') (param delete_wrong_key ''apiKey'')
     \<noteq> API_KEY cfg0 \<and>
   authenticate_mw cfg0 delete_wrong_key = Inl (ApiError FORBIDDEN ''Invalid API key'') \<and>
   meth create_no_key = POST \<and> url_path create_no_key = [''api'', ''products''] \<and>
   app lib0 cfg0 rt0 create_no_key store0 =
     (\<lparr>status = UNAUTHORIZED, body = Message ''Invalid or missing API key''\<rparr>, store0) \<and>
   meth update_wrong_key = PUT \<and>
   url_path update_wrong_key = [''api'', ''products'', ''5f8d0f4d77c19d4e5a7b8c3d''] \<and>
   app lib0 cfg0 rt0 update_wrong_key store0 =
     (\<lparr>status = UNAUTHORIZED, body = Message ''Invalid or missing API key''\<rparr>, store0) \<and>
   meth delete_wrong_key = DELETE \<and>
   url_path delete_wrong_key = [''api'', ''products'', ''5f8d0f4d77c19d4e5a7b8c3d''] \<and>
   app lib0 cfg0 rt0 delete_wrong_key store0 =
     (\<lparr>status = UNAUTHORIZED, body = Message ''Invalid or missing API key''\<rparr>, store0)"
proof -
  have k: "\<not> truthy_str (js_or (header create_no_key ''x-api-key'')
                           (param create_no_key ''apiKey'')) \<and>
           \<not> truthy_str (header create_no_key ''x-api-key'') \<and>
           truthy_str (js_or (header delete_wrong_key ''x-api-key'')
                         (param delete_wrong_key ''apiKey'')) \<and>
           js_or (header delete_wrong_key ''x-api-key'') (param delete_wrong_key ''apiKey'')
             \<noteq> API_KEY cfg0 \<and>
           header update_wrong_key ''x-api-key'' \<noteq> API_KEY cfg0 \<and>
           header delete_wrong_key ''x-api-key'' \<noteq> API_KEY cfg0"
    by code_simp
  have c: "meth create_no_key = POST \<and> url_path create_no_key = [''api'', ''products'']"
    by (simp add: create_no_key_def)
  have u: "meth update_wrong_key = PUT \<and>
           url_path update_wrong_key = [''api'', ''products'', ''5f8d0f4d77c19d4e5a7b8c3d'']"
    by (simp add: update_wrong_key_def)
  have d: "meth delete_wrong_key = DELETE \<and>
           url_path delete_wrong_key = [''api'', ''products'', ''5f8d0f4d77c19d4e5a7b8c3d'']"
    by (simp add: delete_wrong_key_def)
  note t1 = authenticate_status [of create_no_key cfg0 CreateProduct "[]" lib0 rt0 store0]
  note t2 = authenticate_status
              [of update_wrong_key cfg0 UpdateProduct "[''5f8d0f4d77c19d4e5a7b8c3d'']"
                  lib0 rt0 store0 "''5f8d0f4d77c19d4e5a7b8c3d''"]
  note t3 = authenticate_status
              [of delete_wrong_key cfg0 DeleteProduct "[''5f8d0f4d77c19d4e5a7b8c3d'']"
                  lib0 rt0 store0 "''5f8d0f4d77c19d4e5a7b8c3d''"]
  from k c t1 have a1: "authenticate_mw cfg0 create_no_key =
      Inl (ApiError UNAUTHORIZED ''API key is required'') \<and>
    app lib0 cfg0 rt0 create_no_key store0 =
     (\<lparr>status = UNAUTHORIZED, body = Message ''Invalid or missing API key''\<rparr>, store0)"
    by blast
  from k u t2 have a2: "app lib0 cfg0 rt0 update_wrong_key store0 =
     (\<lparr>status = UNAUTHORIZED, body = Message ''Invalid or missing API key''\<rparr>, store0)"
    by blast
  from k d t3 have a3: "authenticate_mw cfg0 delete_wrong_key =
      Inl (ApiError FORBIDDEN ''Invalid API key'') \<and>
    app lib0 cfg0 rt0 delete_wrong_key store0 =
     (\<lparr>status = UNAUTHORIZED, body = Message ''Invalid or missing API key''\<rparr>, store0)"
    by blast
  from k c u d a1 a2 a3 show ?thesis
    by (intro conjI) (blast+)
qed

text \<open>
  Against C1 as it is stated: a delete request to \<open>server.js\<close> with a key that is present
  and wrong is answered with 401, not with 403.
\<close>

theorem authenticate_wrong_key_counterexample:
  "header delete_wrong_key ''x-api-key'' = Some ''wrong'' \<and>
   Some ''wrong'' \<noteq> API_KEY cfg0 \<and>
   meth delete_wrong_key = DELETE \<and>
   status (fst (app lib0 cfg0 rt0 delete_wrong_key store0)) = UNAUTHORIZED"
  by code_simp

section \<open>Properties of the Error Responder\<close>

text \<open>
  C9, as the code has it. An error that carries no status code is answered with 500. The
  body holds the diagnostic trace when the environment mode is \<open>development\<close>, and holds
  none when the mode is set to any other name.
\<close>

theorem errorHandler_default_and_trace:
  "(statusCode err = None \<longrightarrow> status (errorHandler cfg err) = INTERNAL_SERVER_ERROR) \<and>
   (NODE_ENV cfg = Some ''development'' \<longrightarrow> trace (errorHandler cfg err) = Some (stack err)) \<and>
   (NODE_ENV cfg = Some m \<and> m \<noteq> ''development'' \<longrightarrow> trace (errorHandler cfg err) = None)"
  by (simp add: errorHandler_def trace_def Let_def)

text \<open>
  The theorem at a cast error, which carries no status code, in the modes \<open>development\<close>
  and \<open>production\<close>.
\<close>

theorem errorHandler_default_and_trace_witness:
  "statusCode (CastError lib0 ''_id'' ''abc'') = None \<and>
   status (errorHandler \<lparr>API_KEY = None, NODE_ENV = Some ''development''\<rparr>
             (CastError lib0 ''_id'' ''abc'')) = INTERNAL_SERVER_ERROR \<and>
   trace (errorHandler \<lparr>API_KEY = None, NODE_ENV = Some ''development''\<rparr>
            (CastError lib0 ''_id'' ''abc''))
     = Some (stack (CastError lib0 ''_id'' ''abc'')) \<and>
   trace (errorHandler \<lparr>API_KEY = None, NODE_ENV = Some ''production''\<rparr>
            (CastError lib0 ''_id'' ''abc'')) = None"
  using errorHandler_default_and_trace
          [of "CastError lib0 ''_id'' ''abc''"
              "\<lparr>API_KEY = None, NODE_ENV = Some ''development''\<rparr>" "''production''"]
    errorHandler_default_and_trace
          [of "CastError lib0 ''_id'' ''abc''"
              "\<lparr>API_KEY = None, NODE_ENV = Some ''production''\<rparr>" "''production''"]
  by (simp add: CastError_def)

text \<open>
  Against C9 as it is stated: in the mode \<open>test\<close>, which is not production, the body of
  the error response holds no trace.
\<close>

theorem errorHandler_test_mode_counterexample:
  "NODE_ENV cfg0 = Some ''test'' \<and> ''test'' \<noteq> ''production'' \<and>
   trace (errorHandler cfg0 (CastError lib0 ''_id'' ''abc'')) = None"
  by (simp add: errorHandler_def trace_def Let_def cfg0_def)

section \<open>Properties of the router of \<open>server.js\<close>\<close>

text \<open>A \<open>GET\<close> request for a path of three segments under \<open>/api/products\<close> goes to the
  route with the parameter, whatever the third segment is.\<close>

lemma dispatch_get_product:
  assumes "meth req = GET" and "url_path req = [''api'', ''products'', i]"
  shows "dispatch req = Some (GetProduct, [i])"
  using assms by (simp add: dispatch_def routes_def)

lemma app_get_product_route:
  assumes "meth req = GET" and "url_path req = [''api'', ''products'', i]"
  shows "app L cfg rt req st =
           (case app_get_product L i st of
              Respond r \<Rightarrow> (r, st) | Next e \<Rightarrow> (errorHandler cfg e, st))"
  using dispatch_get_product [OF assms]
  by (simp add: app_def params_id_def split: outcome.splits)

lemma errorHandler_CastError:
  "status (errorHandler cfg (CastError L pth v)) = INTERNAL_SERVER_ERROR"
  by (simp add: errorHandler_def CastError_def Let_def)

lemma errorHandler_NotFoundError:
  "status (errorHandler cfg (NotFoundError L m)) = NOT_FOUND"
  by (simp add: errorHandler_def NotFoundError_def Let_def)

text \<open>The search handler by itself: 400 without a non-empty \<open>q\<close>, otherwise all the
  documents whose name or description the pattern matches, and their number.\<close>

lemma app_get_search_handler:
  "(given req ''q'' = None \<longrightarrow>
      (\<exists>m. app_get_search L req st = Respond \<lparr>status = BAD_REQUEST, body = Message m\<rparr>)) \<and>
   (given req ''q'' = Some q \<and> regexValid L q \<longrightarrow>
      app_get_search L req st =
        Respond \<lparr>status = OK,
                 body = Found (length (filter (\<lambda>p. regexTest L q (name p) \<or>
                                                    regexTest L q (description p)) st))
                          (filter (\<lambda>p. regexTest L q (name p) \<or>
                                        regexTest L q (description p)) st)\<rparr>)"
  by (simp add: app_get_search_def find_all_def matching_def)

text \<open>
  C2, what the code does at the failing input. In \<open>server.js\<close> the route
  \<open>/api/products/:id\<close> is registered before \<open>/api/products/search\<close>. A request
  \<open>GET /api/products/search\<close>, with or without \<open>q\<close>, is therefore handled as a lookup of
  the identifier \<open>search\<close>; as that is no well-formed identifier, the lookup raises a cast
  error and the response is 500, not 400.
\<close>

theorem search_route_shadowed:
  assumes "meth req = GET" and "url_path req = [''api'', ''products'', ''search'']"
    and "\<not> isObjectId L ''search''"
  shows "dispatch req = Some (GetProduct, [''search'']) \<and>
         app L cfg rt req st = (errorHandler cfg (CastError L ''_id'' ''search''), st) \<and>
         status (fst (app L cfg rt req st)) = INTERNAL_SERVER_ERROR"
proof -
  have "app_get_product L ''search'' st = Next (CastError L ''_id'' ''search'')"
    using assms(3) by (simp add: app_get_product_def findById_def isObjectId_def)
  then show ?thesis
    using dispatch_get_product [OF assms(1,2)]
    by (simp add: app_get_product_route [OF assms(1,2)] errorHandler_CastError)
qed

text \<open>The theorem at the request \<open>GET /api/products/search\<close> without a query string.\<close>

theorem search_route_shadowed_witness:
  "\<not> isObjectId lib0 ''search'' \<and>
   given \<lparr>meth = GET, url_path = [''api'', ''products'', ''search''],
          headers = [], query = [], reqbody = []\<rparr> ''q'' = None \<and>
   status (fst (app lib0 cfg0 rt0
                  \<lparr>meth = GET, url_path = [''api'', ''products'', ''search''],
                   headers = [], query = [], reqbody = []\<rparr> store0))
     = INTERNAL_SERVER_ERROR"
proof -
  have n: "\<not> isObjectId lib0 ''search''"
    by code_simp
  have g: "given \<lparr>meth = GET, url_path = [''api'', ''products'', ''search''],
                  headers = [], query = [], reqbody = []\<rparr> ''q'' = None"
    by code_simp
  show ?thesis
    using n g
      search_route_shadowed
        [of "\<lparr>meth = GET, url_path = [''api'', ''products'', ''search''],
              headers = [], query = [], reqbody = []\<rparr>" lib0 cfg0 rt0 store0]
    by (simp add: errorHandler_CastError)
qed

text \<open>
  C3, as the code has it. A lookup by a well-formed identifier that no document has is
  answered with 404, by the controller and by \<open>server.js\<close>; a lookup by any spelling of
  the identifier of a document is answered with the document. A lookup by an identifier
  that is not well formed raises a cast error, which carries no status code: the controller
  passes it on, and \<open>server.js\<close> answers it with 500.
\<close>

theorem getById_not_found:
  assumes "meth req = GET" and "url_path req = [''api'', ''products'', i]"
  shows "(castObjectId L i = Some j \<and> find (\<lambda>p. pid p = j) st = None \<longrightarrow>
            getProductById L i st = Respond (not_found_with_id i) \<and>
            status (not_found_with_id i) = NOT_FOUND \<and>
            status (fst (app L cfg rt req st)) = NOT_FOUND) \<and>
         (castObjectId L i = Some j \<and> find (\<lambda>p. pid p = j) st = Some p \<longrightarrow>
            getProductById L i st = Respond \<lparr>status = OK, body = Data p\<rparr> \<and>
            app L cfg rt req st = (\<lparr>status = OK, body = Data p\<rparr>, st)) \<and>
         (\<not> isObjectId L i \<longrightarrow>
            getProductById L i st = Next (CastError L ''_id'' i) \<and>
            statusCode (CastError L ''_id'' i) = None \<and>
            status (fst (app L cfg rt req st)) = INTERNAL_SERVER_ERROR)"
proof (intro conjI impI)
  assume a: "castObjectId L i = Some j \<and> find (\<lambda>p. pid p = j) st = None"
  then show "getProductById L i st = Respond (not_found_with_id i)"
    by (simp add: getProductById_def findById_def)
  show "status (not_found_with_id i) = NOT_FOUND"
    by (simp add: not_found_with_id_def)
  from a have "app_get_product L i st = Next (NotFoundError L ''Product not found'')"
    by (simp add: app_get_product_def findById_def)
  then show "status (fst (app L cfg rt req st)) = NOT_FOUND"
    by (simp add: app_get_product_route [OF assms] errorHandler_NotFoundError)
next
  assume f: "castObjectId L i = Some j \<and> find (\<lambda>p. pid p = j) st = Some p"
  then show "getProductById L i st = Respond \<lparr>status = OK, body = Data p\<rparr>"
    by (simp add: getProductById_def findById_def)
  from f have "app_get_product L i st = Respond \<lparr>status = OK, body = Data p\<rparr>"
    by (simp add: app_get_product_def findById_def)
  then show "app L cfg rt req st = (\<lparr>status = OK, body = Data p\<rparr>, st)"
    by (simp add: app_get_product_route [OF assms])
next
  assume b: "\<not> isObjectId L i"
  then show "getProductById L i st = Next (CastError L ''_id'' i)"
    by (simp add: getProductById_def findById_def isObjectId_def)
  show "statusCode (CastError L ''_id'' i) = None"
    by (simp add: CastError_def)
  from b have "app_get_product L i st = Next (CastError L ''_id'' i)"
    by (simp add: app_get_product_def findById_def isObjectId_def)
  then show "status (fst (app L cfg rt req st)) = INTERNAL_SERVER_ERROR"
    by (simp add: app_get_product_route [OF assms] errorHandler_CastError)
qed

text \<open>
  The theorem at a well-formed identifier that is not in the store, at the identifier of
  the first document of the example store written in upper case, and at \<open>abc\<close>.
\<close>

theorem getById_not_found_witness:
  "castObjectId lib0 ''5f8d0f4d77c19d4e5a7b8c40'' = Some ''5f8d0f4d77c19d4e5a7b8c40'' \<and>
   find (\<lambda>p. pid p = ''5f8d0f4d77c19d4e5a7b8c40'') store0 = None \<and>
   getProductById lib0 ''5f8d0f4d77c19d4e5a7b8c40'' store0
     = Respond (not_found_with_id ''5f8d0f4d77c19d4e5a7b8c40'') \<and>
   status (fst (app lib0 cfg0 rt0
                  \<lparr>meth = GET,
                   url_path = [''api'', ''products'', ''5f8d0f4d77c19d4e5a7b8c40''],
                   headers = [], query = [], reqbody = []\<rparr> store0)) = NOT_FOUND \<and>
   castObjectId lib0 ''5F8D0F4D77C19D4E5A7B8C3D'' = Some ''5f8d0f4d77c19d4e5a7b8c3d'' \<and>
   find (\<lambda>p. pid p = ''5f8d0f4d77c19d4e5a7b8c3d'') store0 = Some laptop \<and>
   getProductById lib0 ''5F8D0F4D77C19D4E5A7B8C3D'' store0
     = Respond \<lparr>status = OK, body = Data laptop\<rparr> \<and>
   app lib0 cfg0 rt0
     \<lparr>meth = GET, url_path = [''api'', ''products'', ''5F8D0F4D77C19D4E5A7B8C3D''],
      headers = [], query = [], reqbody = []\<rparr> store0
     = (\<lparr>status = OK, body = Data laptop\<rparr>, store0) \<and>
   \<not> isObjectId lib0 ''abc'' \<and>
   getProductById lib0 ''abc'' store0 = Next (CastError lib0 ''_id'' ''abc'')"
proof -
  have w: "castObjectId lib0 ''5f8d0f4d77c19d4e5a7b8c40'' = Some ''5f8d0f4d77c19d4e5a7b8c40'' \<and>
           find (\<lambda>p. pid p = ''5f8d0f4d77c19d4e5a7b8c40'') store0 = None"
    by code_simp
  have u: "castObjectId lib0 ''5F8D0F4D77C19D4E5A7B8C3D'' = Some ''5f8d0f4d77c19d4e5a7b8c3d'' \<and>
           find (\<lambda>p. pid p = ''5f8d0f4d77c19d4e5a7b8c3d'') store0 = Some laptop"
    by code_simp
  have n: "\<not> isObjectId lib0 ''abc''"
    by code_simp
  note t1 = getById_not_found
        [of "\<lparr>meth = GET,
              url_path = [''api'', ''products'', ''5f8d0f4d77c19d4e5a7b8c40''],
              headers = [], query = [], reqbody = []\<rparr>"
            "''5f8d0f4d77c19d4e5a7b8c40''" lib0 "''5f8d0f4d77c19d4e5a7b8c40''" store0
            cfg0 rt0]
  note t2 = getById_not_found
        [of "\<lparr>meth = GET, url_path = [''api'', ''products'', ''5F8D0F4D77C19D4E5A7B8C3D''],
              headers = [], query = [], reqbody = []\<rparr>"
            "''5F8D0F4D77C19D4E5A7B8C3D''" lib0 "''5f8d0f4d77c19d4e5a7b8c3d''" store0
            cfg0 rt0 laptop]
  note t3 = getById_not_found
        [of "\<lparr>meth = GET, url_path = [''api'', ''products'', ''abc''],
              headers = [], query = [], reqbody = []\<rparr>"
            "''abc''" lib0 _ store0 cfg0 rt0]
  from w t1 have a1: "getProductById lib0 ''5f8d0f4d77c19d4e5a7b8c40'' store0
       = Respond (not_found_with_id ''5f8d0f4d77c19d4e5a7b8c40'') \<and>
     status (fst (app lib0 cfg0 rt0
                  \<lparr>meth = GET,
                   url_path = [''api'', ''products'', ''5f8d0f4d77c19d4e5a7b8c40''],
                   headers = [], query = [], reqbody = []\<rparr> store0)) = NOT_FOUND"
    by simp
  from u t2 have a2: "getProductById lib0 ''5F8D0F4D77C19D4E5A7B8C3D'' store0
       = Respond \<lparr>status = OK, body = Data laptop\<rparr> \<and>
     app lib0 cfg0 rt0
       \<lparr>meth = GET, url_path = [''api'', ''products'', ''5F8D0F4D77C19D4E5A7B8C3D''],
        headers = [], query = [], reqbody = []\<rparr> store0
       = (\<lparr>status = OK, body = Data laptop\<rparr>, store0)"
    by simp
  from n t3 have a3: "getProductById lib0 ''abc'' store0 = Next (CastError lib0 ''_id'' ''abc'')"
    by simp
  from w u n a1 a2 a3 show ?thesis
    by (intro conjI) (blast+)
qed

text \<open>
  Against C3 as it is stated: the lookup of the identifier \<open>abc\<close>, which is not well
  formed, is answered by \<open>server.js\<close> with 500, not with 404.
\<close>

theorem getById_malformed_counterexample:
  "\<not> isObjectId lib0 ''abc'' \<and>
   status (fst (app lib0 cfg0 rt0
                  \<lparr>meth = GET, url_path = [''api'', ''products'', ''abc''],
                   headers = [], query = [], reqbody = []\<rparr> store0))
     = INTERNAL_SERVER_ERROR"
  by code_simp

section \<open>Properties of update\<close>

lemma find_pid: "find (\<lambda>q. pid q = j) st = Some p \<Longrightarrow> pid p = j"
  by (auto simp: find_Some_iff)

lemma find_replace:
  "find (\<lambda>q. pid q = j) st = Some p \<Longrightarrow> pid q' = j \<Longrightarrow>
   find (\<lambda>q. pid q = j) (replace j q' st) = Some q'"
  by (induction st) (auto split: if_splits)

lemma filter_replace:
  "pid q' = j \<Longrightarrow>
   filter (\<lambda>q. pid q \<noteq> j) (replace j q' st) = filter (\<lambda>q. pid q \<noteq> j) st"
  by (induction st) auto

lemma cur_assign_name:
  "cur (assign_name L v d) =
     (cur d)\<lparr>name := (case set_name L v of None \<Rightarrow> name (cur d) | Some s \<Rightarrow> s)\<rparr>"
  by (simp add: assign_name_def split: option.splits)

lemma cur_assign_description:
  "cur (assign_description L v d) =
     (cur d)\<lparr>description :=
        (case set_description L v of None \<Rightarrow> description (cur d) | Some s \<Rightarrow> s)\<rparr>"
  by (simp add: assign_description_def split: option.splits)

lemma cur_assign_price:
  "cur (assign_price L v d) =
     (cur d)\<lparr>price := (case castNumber L v of None \<Rightarrow> price (cur d) | Some n \<Rightarrow> n)\<rparr>"
  by (simp add: assign_price_def split: option.splits)

lemma cur_assign_category:
  "cur (assign_category L v d) =
     (cur d)\<lparr>category :=
        (case set_category L v of None \<Rightarrow> category (cur d) | Some s \<Rightarrow> s)\<rparr>"
  by (simp add: assign_category_def split: option.splits)

lemma cur_assign_inStock:
  "cur (assign_inStock v d) =
     (cur d)\<lparr>inStock := (case castBoolean v of None \<Rightarrow> inStock (cur d) | Some b \<Rightarrow> b)\<rparr>"
  by (simp add: assign_inStock_def split: option.splits)

lemmas cur_assign =
  cur_assign_name cur_assign_description cur_assign_price cur_assign_category
  cur_assign_inStock

text \<open>The fields after the five conditional assignments.\<close>

lemma cur_assign_fields:
  "cur (assign_fields L req \<lparr>cur = p, bad = []\<rparr>) =
     p\<lparr>name := (if truthy (field req ''name'')
                 then (case set_name L (field req ''name'') of None \<Rightarrow> name p | Some s \<Rightarrow> s)
                 else name p),
       description := (if truthy (field req ''description'')
                 then (case set_description L (field req ''description'') of
                         None \<Rightarrow> description p | Some s \<Rightarrow> s)
                 else description p),
       price := (if truthy (field req ''price'')
                 then (case castNumber L (field req ''price'') of None \<Rightarrow> price p | Some n \<Rightarrow> n)
                 else price p),
       category := (if truthy (field req ''category'')
                 then (case set_category L (field req ''category'') of
                         None \<Rightarrow> category p | Some s \<Rightarrow> s)
                 else category p),
       inStock := (if field req ''inStock'' \<noteq> JUndefined
                 then (case castBoolean (field req ''inStock'') of
                         None \<Rightarrow> inStock p | Some b \<Rightarrow> b)
                 else inStock p)\<rparr>"
  by (simp add: assign_fields_def Let_def cur_assign split: option.splits)

lemma assign_fields_empty:
  "empty_partial req \<Longrightarrow> assign_fields L req d = d"
  by (simp add: assign_fields_def empty_partial_def Let_def)

lemma assign_fields_retained:
  "omitted_retained req p (cur (assign_fields L req \<lparr>cur = p, bad = []\<rparr>))"
  by (simp add: cur_assign_fields omitted_retained_def)

lemma omitted_retained_refl: "omitted_retained req p p"
  by (simp add: omitted_retained_def)

lemma omitted_retained_updatedAt:
  "omitted_retained req p q \<Longrightarrow> omitted_retained req p (q\<lparr>updatedAt := t\<rparr>)"
  by (simp add: omitted_retained_def)

text \<open>What \<open>save\<close> leaves behind, whether it succeeds or not.\<close>

lemma save_cases:
  assumes "save L rt p d st = r"
  shows "(\<exists>e. r = Inl e) \<or> r = Inr (p, st) \<and> cur d = p \<or>
         r = Inr ((cur d)\<lparr>updatedAt := now rt\<rparr>, replace (pid p) ((cur d)\<lparr>updatedAt := now rt\<rparr>) st)"
  using assms by (auto simp: save_def validate_def split: if_splits)

lemma updateProduct_frame:
  assumes ex: "find (\<lambda>q. pid q = j) st = Some p"
    and id: "castObjectId L i = None \<or> castObjectId L i = Some j"
    and run: "updateProduct L rt i req st = (out, st')"
  shows "(\<exists>p'. find (\<lambda>q. pid q = j) st' = Some p' \<and> omitted_retained req p p' \<and>
               (empty_partial req \<longrightarrow> p' = p)) \<and>
         filter (\<lambda>q. pid q \<noteq> j) st' = filter (\<lambda>q. pid q \<noteq> j) st"
proof (cases "castObjectId L i")
  case None
  with run have "st' = st"
    by (simp add: updateProduct_def findById_def)
  with ex show ?thesis
    by (auto simp: omitted_retained_refl)
next
  case (Some k)
  with id have c: "castObjectId L i = Some j"
    by simp
  let ?d = "assign_fields L req \<lparr>cur = p, bad = []\<rparr>"
  let ?q = "(cur ?d)\<lparr>updatedAt := now rt\<rparr>"
  have pj: "pid p = j"
    using ex by (rule find_pid)
  from c ex run
  have r: "(case save L rt p ?d st of Inl e \<Rightarrow> (Next e, st)
            | Inr (p', s') \<Rightarrow> (Respond \<lparr>status = OK, body = Data p'\<rparr>, s')) = (out, st')"
    by (simp add: updateProduct_def findById_def)
  consider (err) e where "save L rt p ?d st = Inl e"
    | (same) "save L rt p ?d st = Inr (p, st)"
    | (changed) "save L rt p ?d st = Inr (?q, replace (pid p) ?q st)" "cur ?d \<noteq> p"
    using save_cases [OF refl, of L rt p ?d st] by (auto simp: save_def validate_def split: if_splits)
  then show ?thesis
  proof cases
    case err
    with r have "st' = st" by simp
    with ex show ?thesis by (auto simp: omitted_retained_refl)
  next
    case same
    with r have "st' = st" by simp
    with ex show ?thesis by (auto simp: omitted_retained_refl)
  next
    case changed
    with r have s: "st' = replace j ?q st" by (simp add: pj)
    have q: "pid ?q = j"
      using assign_fields_retained [of req p L] pj by (simp add: omitted_retained_def)
    have "find (\<lambda>q. pid q = j) st' = Some ?q"
      unfolding s using ex q by (rule find_replace)
    moreover have "omitted_retained req p ?q"
      by (rule omitted_retained_updatedAt) (rule assign_fields_retained)
    moreover have "\<not> empty_partial req"
      using changed(2) by (auto simp: assign_fields_empty)
    moreover have "filter (\<lambda>q. pid q \<noteq> j) st' = filter (\<lambda>q. pid q \<noteq> j) st"
      unfolding s using q by (rule filter_replace)
    ultimately show ?thesis by blast
  qed
qed

lemma apply_update_retained: "omitted_retained req p (apply_update L rt req p)"
  by (simp add: omitted_retained_def apply_update_def set_name_def set_description_def
      set_category_def)

lemma validateProduct_empty:
  "empty_partial req \<Longrightarrow> \<exists>r. validateProduct L req = Inl r"
  by (simp add: validateProduct_def validationResult_def empty_partial_def notEmpty_def Let_def)

lemma findByIdAndUpdate_cases:
  assumes "find (\<lambda>q. pid q = j) st = Some p"
    and "castObjectId L i = None \<or> castObjectId L i = Some j"
  shows "(\<exists>e. findByIdAndUpdate L rt i req st = Inl e) \<or>
         findByIdAndUpdate L rt i req st =
           Inr (Some (apply_update L rt req p), replace j (apply_update L rt req p) st)"
  using assms by (auto simp: findByIdAndUpdate_def split: option.splits)

lemma app_put_product_frame:
  assumes ex: "find (\<lambda>q. pid q = j) st = Some p"
    and id: "castObjectId L i = None \<or> castObjectId L i = Some j"
    and run: "app_put_product L cfg rt i req st = (out, st')"
  shows "(\<exists>p'. find (\<lambda>q. pid q = j) st' = Some p' \<and> omitted_retained req p p' \<and>
               (empty_partial req \<longrightarrow> p' = p)) \<and>
         filter (\<lambda>q. pid q \<noteq> j) st' = filter (\<lambda>q. pid q \<noteq> j) st"
proof -
  let ?q = "apply_update L rt req p"
  have same: ?thesis if "st' = st"
    using that ex by (auto simp: omitted_retained_refl)
  consider (auth) r where "authenticate cfg req = Inl r"
    | (invalid) r where "authenticate cfg req = Inr ()" "validateProduct L req = Inl r"
    | (failed) e where "authenticate cfg req = Inr ()" "validateProduct L req = Inr ()"
        "findByIdAndUpdate L rt i req st = Inl e"
    | (updated) "authenticate cfg req = Inr ()" "validateProduct L req = Inr ()"
        "findByIdAndUpdate L rt i req st = Inr (Some ?q, replace j ?q st)"
    using findByIdAndUpdate_cases [OF ex id, of rt req]
    by (cases "authenticate cfg req"; cases "validateProduct L req") auto
  then show ?thesis
  proof cases
    case auth
    with run show ?thesis by (intro same) (simp add: app_put_product_def)
  next
    case invalid
    with run show ?thesis by (intro same) (simp add: app_put_product_def)
  next
    case failed
    with run show ?thesis by (intro same) (simp add: app_put_product_def)
  next
    case updated
    with run have s: "st' = replace j ?q st"
      by (simp add: app_put_product_def)
    have q: "pid ?q = j"
      using apply_update_retained [of req p L rt] find_pid [OF ex]
      by (simp add: omitted_retained_def)
    have "find (\<lambda>q. pid q = j) st' = Some ?q"
      unfolding s using ex q by (rule find_replace)
    moreover have "omitted_retained req p ?q"
      by (rule apply_update_retained)
    moreover have "\<not> empty_partial req"
      using updated(2) validateProduct_empty [of req L] by auto
    moreover have "filter (\<lambda>q. pid q \<noteq> j) st' = filter (\<lambda>q. pid q \<noteq> j) st"
      unfolding s using q by (rule filter_replace)
    ultimately show ?thesis by blast
  qed
qed

text \<open>
  C4. An update of a document that exists, by the controller or by \<open>server.js\<close>, leaves
  the document in the store with every field the partial omits as it was, whether the update
  succeeds or fails; after an update with an empty partial the document differs from what
  it was in \<open>updatedAt\<close> at most. No other document changes. The document is the one
  that the identifier of the request denotes, in whatever spelling it is sent; the same
  holds of a document when the request has an identifier that is not well formed.
\<close>

theorem update_retains_omitted_fields:
  assumes "find (\<lambda>q. pid q = j) st = Some p"
    and "castObjectId L i = None \<or> castObjectId L i = Some j"
  shows "(updateProduct L rt i req st = (out, st') \<longrightarrow>
            (\<exists>p'. find (\<lambda>q. pid q = j) st' = Some p' \<and> omitted_retained req p p' \<and>
                  (empty_partial req \<longrightarrow> p'\<lparr>updatedAt := updatedAt p\<rparr> = p)) \<and>
            filter (\<lambda>q. pid q \<noteq> j) st' = filter (\<lambda>q. pid q \<noteq> j) st) \<and>
         (app_put_product L cfg rt i req st = (out2, st2) \<longrightarrow>
            (\<exists>p'. find (\<lambda>q. pid q = j) st2 = Some p' \<and> omitted_retained req p p' \<and>
                  (empty_partial req \<longrightarrow> p'\<lparr>updatedAt := updatedAt p\<rparr> = p)) \<and>
            filter (\<lambda>q. pid q \<noteq> j) st2 = filter (\<lambda>q. pid q \<noteq> j) st)"
proof (intro conjI impI)
  assume run: "updateProduct L rt i req st = (out, st')"
  from updateProduct_frame [OF assms(1) assms(2) run]
  show "\<exists>p'. find (\<lambda>q. pid q = j) st' = Some p' \<and> omitted_retained req p p' \<and>
             (empty_partial req \<longrightarrow> p'\<lparr>updatedAt := updatedAt p\<rparr> = p)"
    by auto
  from updateProduct_frame [OF assms(1) assms(2) run]
  show "filter (\<lambda>q. pid q \<noteq> j) st' = filter (\<lambda>q. pid q \<noteq> j) st"
    by simp
next
  assume run: "app_put_product L cfg rt i req st = (out2, st2)"
  from app_put_product_frame [OF assms(1) assms(2) run]
  show "\<exists>p'. find (\<lambda>q. pid q = j) st2 = Some p' \<and> omitted_retained req p p' \<and>
             (empty_partial req \<longrightarrow> p'\<lparr>updatedAt := updatedAt p\<rparr> = p)"
    by auto
  from app_put_product_frame [OF assms(1) assms(2) run]
  show "filter (\<lambda>q. pid q \<noteq> j) st2 = filter (\<lambda>q. pid q \<noteq> j) st"
    by simp
qed

text \<open>
  The theorem at the first document of the example store: the controller with a price
  alone and the identifier in upper case, \<open>server.js\<close> with every field but
  \<open>inStock\<close>.
\<close>

theorem update_retains_omitted_fields_witness:
  "find (\<lambda>q. pid q = ''5f8d0f4d77c19d4e5a7b8c3d'') store0 = Some laptop \<and>
   castObjectId lib0 ''5F8D0F4D77C19D4E5A7B8C3D'' = Some ''5f8d0f4d77c19d4e5a7b8c3d'' \<and>
   castObjectId lib0 ''5f8d0f4d77c19d4e5a7b8c3d'' = Some ''5f8d0f4d77c19d4e5a7b8c3d'' \<and>
   updateProduct lib0 rt0 ''5F8D0F4D77C19D4E5A7B8C3D'' price_only store0 =
     (Respond \<lparr>status = OK, body = Data (laptop\<lparr>price := Fin 5, updatedAt := 7\<rparr>)\<rparr>,
      [laptop\<lparr>price := Fin 5, updatedAt := 7\<rparr>, shirt]) \<and>
   (\<exists>p'. find (\<lambda>q. pid q = ''5f8d0f4d77c19d4e5a7b8c3d'')
            [laptop\<lparr>price := Fin 5, updatedAt := 7\<rparr>, shirt] = Some p' \<and>
         omitted_retained price_only laptop p') \<and>
   app_put_product lib0 cfg0 rt0 ''5f8d0f4d77c19d4e5a7b8c3d'' full_update store0 =
     (Respond \<lparr>status = OK,
               body = Data (laptop\<lparr>name := ''Laptop 2'', description := ''Faster'',
                                   price := Fin 1500, updatedAt := 7\<rparr>)\<rparr>,
      [laptop\<lparr>name := ''Laptop 2'', description := ''Faster'', price := Fin 1500,
              updatedAt := 7\<rparr>, shirt]) \<and>
   (\<exists>p'. find (\<lambda>q. pid q = ''5f8d0f4d77c19d4e5a7b8c3d'')
            [laptop\<lparr>name := ''Laptop 2'', description := ''Faster'', price := Fin 1500,
                    updatedAt := 7\<rparr>, shirt] = Some p' \<and>
         omitted_retained full_update laptop p')"
proof -
  have f: "find (\<lambda>q. pid q = ''5f8d0f4d77c19d4e5a7b8c3d'') store0 = Some laptop"
    by (simp add: store0_def laptop_def)
  have cu: "castObjectId lib0 ''5F8D0F4D77C19D4E5A7B8C3D'' = Some ''5f8d0f4d77c19d4e5a7b8c3d''"
    by code_simp
  have cl: "castObjectId lib0 ''5f8d0f4d77c19d4e5a7b8c3d'' = Some ''5f8d0f4d77c19d4e5a7b8c3d''"
    by code_simp
  have u: "updateProduct lib0 rt0 ''5F8D0F4D77C19D4E5A7B8C3D'' price_only store0 =
     (Respond \<lparr>status = OK, body = Data (laptop\<lparr>price := Fin 5, updatedAt := 7\<rparr>)\<rparr>,
      [laptop\<lparr>price := Fin 5, updatedAt := 7\<rparr>, shirt])"
    by code_simp
  have v: "app_put_product lib0 cfg0 rt0 ''5f8d0f4d77c19d4e5a7b8c3d'' full_update store0 =
     (Respond \<lparr>status = OK,
               body = Data (laptop\<lparr>name := ''Laptop 2'', description := ''Faster'',
                                   price := Fin 1500, updatedAt := 7\<rparr>)\<rparr>,
      [laptop\<lparr>name := ''Laptop 2'', description := ''Faster'', price := Fin 1500,
              updatedAt := 7\<rparr>, shirt])"
    by code_simp
  note t1 = update_retains_omitted_fields
      [OF f disjI2 [OF cu],
       where rt = rt0 and req = price_only
         and out = "Respond \<lparr>status = OK,
                             body = Data (laptop\<lparr>price := Fin 5, updatedAt := 7\<rparr>)\<rparr>"
         and st' = "[laptop\<lparr>price := Fin 5, updatedAt := 7\<rparr>, shirt]"]
  note t2 = update_retains_omitted_fields
      [OF f disjI2 [OF cl],
       where rt = rt0 and req = full_update and cfg = cfg0
         and ?out2.0 = "Respond \<lparr>status = OK,
                  body = Data (laptop\<lparr>name := ''Laptop 2'', description := ''Faster'',
                                      price := Fin 1500, updatedAt := 7\<rparr>)\<rparr>"
         and ?st2.0 = "[laptop\<lparr>name := ''Laptop 2'', description := ''Faster'',
                              price := Fin 1500, updatedAt := 7\<rparr>, shirt]"]
  from u t1 have a1: "\<exists>p'. find (\<lambda>q. pid q = ''5f8d0f4d77c19d4e5a7b8c3d'')
            [laptop\<lparr>price := Fin 5, updatedAt := 7\<rparr>, shirt] = Some p' \<and>
         omitted_retained price_only laptop p'"
    by blast
  from v t2 have a2: "\<exists>p'. find (\<lambda>q. pid q = ''5f8d0f4d77c19d4e5a7b8c3d'')
            [laptop\<lparr>name := ''Laptop 2'', description := ''Faster'', price := Fin 1500,
                    updatedAt := 7\<rparr>, shirt] = Some p' \<and>
         omitted_retained full_update laptop p'"
    by blast
  from f cu cl u v a1 a2 show ?thesis
    by (intro conjI)
qed

lemma updateProduct_result:
  assumes ex: "find (\<lambda>q. pid q = j) st = Some p"
    and id: "castObjectId L i = None \<or> castObjectId L i = Some j"
    and run: "updateProduct L rt i req st = (out, st')"
  shows "st' = st \<or>
         st' = replace j ((cur (assign_fields L req \<lparr>cur = p, bad = []\<rparr>))\<lparr>updatedAt := now rt\<rparr>) st \<and>
         invalid_paths (assign_fields L req \<lparr>cur = p, bad = []\<rparr>) = []"
proof (cases "castObjectId L i")
  case None
  with run show ?thesis
    by (simp add: updateProduct_def findById_def)
next
  case (Some k)
  with id have c: "castObjectId L i = Some j"
    by simp
  have pj: "pid p = j"
    using ex by (rule find_pid)
  from c ex run show ?thesis
    by (auto simp: updateProduct_def findById_def save_def validate_def pj split: if_splits)
qed

lemma falsy_retained_refl: "falsy_retained req p p"
  by (simp add: falsy_retained_def)

lemma assign_fields_falsy:
  "falsy_retained req p ((cur (assign_fields L req \<lparr>cur = p, bad = []\<rparr>))\<lparr>updatedAt := t\<rparr>)"
  by (simp add: cur_assign_fields falsy_retained_def)

lemma assign_fields_numeric_price:
  assumes "field req ''price'' = JNum n" and "price p \<noteq> Fin 0"
  shows "price (cur (assign_fields L req \<lparr>cur = p, bad = []\<rparr>)) \<noteq> Fin 0"
  using assms by (simp add: cur_assign_fields)

lemma bad_assign_fields_inStock:
  assumes "\<not> truthy (field req ''name'')" "\<not> truthy (field req ''description'')"
    "\<not> truthy (field req ''price'')" "\<not> truthy (field req ''category'')"
    "field req ''inStock'' = JBool b"
  shows "assign_fields L req \<lparr>cur = p, bad = []\<rparr> = \<lparr>cur = p\<lparr>inStock := Some b\<rparr>, bad = []\<rparr>"
  using assms by (simp add: assign_fields_def Let_def assign_inStock_def)

text \<open>
  C10, as the code has it. In the update of the controller, a field of the partial with a
  falsy value is not assigned: the document keeps its name, description, price and category
  where the partial gives \<open>undefined\<close>, \<open>null\<close>, \<open>false\<close>, the number 0 or the empty
  string for it. A price given as a number never turns a price that is not 0 into 0.
  \<open>inStock\<close> given as \<open>false\<close> is assigned: with no other field to assign and a valid
  document, the document has \<open>inStock = false\<close> afterwards. The document is the one that
  the identifier of the request denotes.
\<close>

theorem update_ignores_falsy:
  assumes ex: "find (\<lambda>q. pid q = j) st = Some p"
    and id: "castObjectId L i = None \<or> castObjectId L i = Some j"
    and run: "updateProduct L rt i req st = (out, st')"
  shows "\<exists>p'. find (\<lambda>q. pid q = j) st' = Some p' \<and> falsy_retained req p p' \<and>
          ((\<exists>n. field req ''price'' = JNum n) \<and> price p \<noteq> Fin 0 \<longrightarrow> price p' \<noteq> Fin 0) \<and>
          (isObjectId L i \<and> invalid_paths \<lparr>cur = p, bad = []\<rparr> = [] \<and>
           \<not> truthy (field req ''name'') \<and> \<not> truthy (field req ''description'') \<and>
           \<not> truthy (field req ''price'') \<and> \<not> truthy (field req ''category'') \<and>
           field req ''inStock'' = JBool False \<longrightarrow> inStock p' = Some False)"
proof -
  let ?d = "assign_fields L req \<lparr>cur = p, bad = []\<rparr>"
  let ?q = "(cur ?d)\<lparr>updatedAt := now rt\<rparr>"
  have pj: "pid p = j"
    using ex by (rule find_pid)
  have stock: "inStock p' = Some False"
    if h: "isObjectId L i \<and> invalid_paths \<lparr>cur = p, bad = []\<rparr> = [] \<and>
           \<not> truthy (field req ''name'') \<and> \<not> truthy (field req ''description'') \<and>
           \<not> truthy (field req ''price'') \<and> \<not> truthy (field req ''category'') \<and>
           field req ''inStock'' = JBool False"
      and f: "find (\<lambda>q. pid q = j) st' = Some p'" for p'
  proof -
    from h id have c: "castObjectId L i = Some j"
      by (auto simp: isObjectId_def)
    from h have d: "?d = \<lparr>cur = p\<lparr>inStock := Some False\<rparr>, bad = []\<rparr>"
      by (simp add: bad_assign_fields_inStock)
    from h have v: "invalid_paths \<lparr>cur = p\<lparr>inStock := Some False\<rparr>, bad = []\<rparr> = []"
      by (simp add: invalid_paths_def)
    show ?thesis
    proof (cases "inStock p = Some False")
      case True
      with c ex run d v have "st' = st"
        by (simp add: updateProduct_def findById_def save_def validate_def)
      with f ex True show ?thesis by simp
    next
      case False
      then have ne: "p\<lparr>inStock := Some False\<rparr> \<noteq> p"
        by (metis product.select_convs(6) product.surjective product.update_convs(6))
      with c ex run d v
      have "st' = replace j (p\<lparr>inStock := Some False, updatedAt := now rt\<rparr>) st"
        by (simp add: updateProduct_def findById_def save_def validate_def pj)
      with f find_replace [OF ex, of "p\<lparr>inStock := Some False, updatedAt := now rt\<rparr>"] pj
      show ?thesis by auto
    qed
  qed
  from updateProduct_result [OF ex id run]
  show ?thesis
  proof
    assume "st' = st"
    with ex stock show ?thesis
      by (auto simp: falsy_retained_refl)
  next
    assume w: "st' = replace j ?q st \<and> invalid_paths ?d = []"
    have q: "pid ?q = j"
      using assign_fields_retained [of req p L] pj by (simp add: omitted_retained_def)
    have f: "find (\<lambda>q. pid q = j) st' = Some ?q"
      using w find_replace [OF ex q] by simp
    have "falsy_retained req p ?q"
      by (rule assign_fields_falsy)
    moreover have "(\<exists>n. field req ''price'' = JNum n) \<and> price p \<noteq> Fin 0 \<longrightarrow> price ?q \<noteq> Fin 0"
      using assign_fields_numeric_price [of req _ p L] by auto
    ultimately show ?thesis
      using f stock [OF _ f] by blast
  qed
qed

text \<open>
  The theorem at an update of the first document of the example store with the price 0,
  an empty name and \<open>inStock = false\<close>.
\<close>

theorem update_ignores_falsy_witness:
  "find (\<lambda>q. pid q = ''5f8d0f4d77c19d4e5a7b8c3d'') store0 = Some laptop \<and>
   updateProduct lib0 rt0 ''5f8d0f4d77c19d4e5a7b8c3d'' price_zero store0 =
     (Respond \<lparr>status = OK, body = Data (laptop\<lparr>inStock := Some False, updatedAt := 7\<rparr>)\<rparr>,
      [laptop\<lparr>inStock := Some False, updatedAt := 7\<rparr>, shirt]) \<and>
   field price_zero ''price'' = JNum (Fin 0) \<and> price laptop \<noteq> Fin 0 \<and>
   isObjectId lib0 ''5f8d0f4d77c19d4e5a7b8c3d'' \<and>
   invalid_paths \<lparr>cur = laptop, bad = []\<rparr> = [] \<and>
   \<not> truthy (field price_zero ''name'') \<and> \<not> truthy (field price_zero ''description'') \<and>
   \<not> truthy (field price_zero ''price'') \<and> \<not> truthy (field price_zero ''category'') \<and>
   field price_zero ''inStock'' = JBool False \<and>
   (\<exists>p'. find (\<lambda>q. pid q = ''5f8d0f4d77c19d4e5a7b8c3d'')
            [laptop\<lparr>inStock := Some False, updatedAt := 7\<rparr>, shirt] = Some p' \<and>
         falsy_retained price_zero laptop p' \<and> price p' \<noteq> Fin 0 \<and> inStock p' = Some False)"
proof -
  have f: "find (\<lambda>q. pid q = ''5f8d0f4d77c19d4e5a7b8c3d'') store0 = Some laptop"
    by (simp add: store0_def laptop_def)
  have u: "updateProduct lib0 rt0 ''5f8d0f4d77c19d4e5a7b8c3d'' price_zero store0 =
     (Respond \<lparr>status = OK, body = Data (laptop\<lparr>inStock := Some False, updatedAt := 7\<rparr>)\<rparr>,
      [laptop\<lparr>inStock := Some False, updatedAt := 7\<rparr>, shirt])"
    by code_simp
  have c: "castObjectId lib0 ''5f8d0f4d77c19d4e5a7b8c3d'' = Some ''5f8d0f4d77c19d4e5a7b8c3d''"
    by code_simp
  have h: "field price_zero ''price'' = JNum (Fin 0) \<and> price laptop \<noteq> Fin 0 \<and>
   isObjectId lib0 ''5f8d0f4d77c19d4e5a7b8c3d'' \<and>
   invalid_paths \<lparr>cur = laptop, bad = []\<rparr> = [] \<and>
   \<not> truthy (field price_zero ''name'') \<and> \<not> truthy (field price_zero ''description'') \<and>
   \<not> truthy (field price_zero ''price'') \<and> \<not> truthy (field price_zero ''category'') \<and>
   field price_zero ''inStock'' = JBool False"
    by code_simp
  show ?thesis
    using f u h update_ignores_falsy [OF f disjI2 [OF c] u]
    by blast
qed

text \<open>
  Against C10 as it is stated: the price given as the string \<open>0\<close> is truthy, is assigned
  and is cast to the number 0, so that the update sets the price of the document to 0.
\<close>

theorem update_price_zero_string_counterexample:
  "truthy (field price_zero_string ''price'') \<and> price laptop \<noteq> Fin 0 \<and>
   find (\<lambda>q. pid q = ''5f8d0f4d77c19d4e5a7b8c3d'') store0 = Some laptop \<and>
   updateProduct lib0 rt0 ''5f8d0f4d77c19d4e5a7b8c3d'' price_zero_string store0 =
     (Respond \<lparr>status = OK, body = Data (laptop\<lparr>price := Fin 0, updatedAt := 7\<rparr>)\<rparr>,
      [laptop\<lparr>price := Fin 0, updatedAt := 7\<rparr>, shirt])"
  by code_simp

section \<open>Properties of create\<close>

lemma validate_invariant: "validate L d = Inr p \<Longrightarrow> product_invariant p"
  by (auto simp: validate_def invalid_paths_def product_invariant_def valid_price_def
      valid_category_def split: if_splits)

lemma validate_error:
  "validate L d = Inl e \<Longrightarrow> err_name e = ''ValidationError'' \<and> statusCode e = None \<and> errors e \<noteq> []"
  by (auto simp: validate_def SchemaValidationError_def split: if_splits)

lemma new_Product_price:
  "castNumber L p = None \<Longrightarrow> ''price'' \<in> set (bad (new_Product L rt n d p c s))"
  "castNumber L p = Some x \<Longrightarrow> price (cur (new_Product L rt n d p c s)) = x"
  by (simp_all add: new_Product_def Let_def assign_name_def assign_description_def
      assign_price_def assign_category_def assign_inStock_def split: option.splits)

lemma new_Product_category:
  "set_category L c = None \<Longrightarrow> ''category'' \<in> set (bad (new_Product L rt n d p c s))"
  "set_category L c = Some y \<Longrightarrow> category (cur (new_Product L rt n d p c s)) = y"
  by (simp_all add: new_Product_def Let_def assign_name_def assign_description_def
      assign_price_def assign_category_def assign_inStock_def split: option.splits)

lemma new_Product_valid:
  assumes "invalid_paths (new_Product L rt n d p c s) = []"
  shows "(case castNumber L p of None \<Rightarrow> False | Some x \<Rightarrow> js_le (Fin 0) x) \<and>
         (case set_category L c of None \<Rightarrow> False | Some y \<Rightarrow> y \<in> set categories)"
proof -
  let ?d = "new_Product L rt n d p c s"
  from assms have a: "''price'' \<notin> set (bad ?d)" "valid_price (price (cur ?d))"
    "''category'' \<notin> set (bad ?d)" "valid_category (category (cur ?d))"
    by (auto simp: invalid_paths_def split: if_splits)
  show ?thesis
    using a new_Product_price [where L = L and p = p and rt = rt and n = n and d = d and c = c and s = s]
      new_Product_category [where L = L and p = p and rt = rt and n = n and d = d and c = c and s = s]
    by (auto simp: valid_price_def valid_category_def split: option.splits)
qed

lemma save_new_cases:
  "(\<exists>e. save_new L d st = Inl e \<and> validate L d = Inl e) \<or>
   (\<exists>p. save_new L d st = Inr (p, st @ [p]) \<and> validate L d = Inr p)"
  by (cases "validate L d") (simp_all add: save_new_def)

lemma createProduct_cases:
  "(\<exists>e. createProduct L rt req st = (Next e, st) \<and> err_name e = ''ValidationError'' \<and>
        statusCode e = None \<and> errors e \<noteq> []) \<or>
   (\<exists>p. createProduct L rt req st = (Respond \<lparr>status = CREATED, body = Data p\<rparr>, st @ [p]) \<and>
        product_invariant p \<and> payload_ok L req)"
proof -
  let ?d = "new_Product L rt (field req ''name'') (field req ''description'')
                (field req ''price'') (field req ''category'')
                (if field req ''inStock'' \<noteq> JUndefined then field req ''inStock''
                 else JBool True)"
  from save_new_cases [of L ?d st] show ?thesis
  proof (elim disjE exE conjE)
    fix e assume "save_new L ?d st = Inl e" "validate L ?d = Inl e"
    then show ?thesis
      using validate_error [of L ?d e] by (simp add: createProduct_def Let_def)
  next
    fix p assume s: "save_new L ?d st = Inr (p, st @ [p])" and v: "validate L ?d = Inr p"
    from v have "invalid_paths ?d = []"
      by (simp add: validate_def split: if_splits)
    then have "payload_ok L req"
      unfolding payload_ok_def by (rule new_Product_valid)
    with s v show ?thesis
      using validate_invariant [OF v] by (simp add: createProduct_def Let_def)
  qed
qed

lemma app_post_product_cases:
  "(\<exists>r. app_post_product L cfg rt req st = (Respond r, st) \<and> authenticate cfg req = Inl r) \<or>
   (\<exists>errs. app_post_product L cfg rt req st =
             (Respond \<lparr>status = BAD_REQUEST, body = Errors errs\<rparr>, st) \<and> errs \<noteq> []) \<or>
   (\<exists>e. app_post_product L cfg rt req st = (Next e, st) \<and> err_name e = ''ValidationError'' \<and>
        statusCode e = None \<and> errors e \<noteq> []) \<or>
   (\<exists>p. app_post_product L cfg rt req st =
           (Respond \<lparr>status = CREATED, body = Data p\<rparr>, st @ [p]) \<and>
        product_invariant p \<and> payload_ok L req)"
proof (cases "authenticate cfg req")
  case (Inl r)
  then show ?thesis by (simp add: app_post_product_def)
next
  case (Inr u)
  note auth = this
  show ?thesis
  proof (cases "validateProduct L req")
    case (Inl r)
    then show ?thesis
      using auth by (auto simp: app_post_product_def validateProduct_def Let_def split: if_splits)
  next
    case (Inr w)
    let ?d = "new_Product L rt (field req ''name'') (field req ''description'')
                (field req ''price'') (field req ''category'') (field req ''inStock'')"
    from save_new_cases [of L ?d st] show ?thesis
    proof (elim disjE exE conjE)
      fix e assume "save_new L ?d st = Inl e" "validate L ?d = Inl e"
      then show ?thesis
        using validate_error [of L ?d e] auth Inr by (simp add: app_post_product_def)
    next
      fix p assume s: "save_new L ?d st = Inr (p, st @ [p])" and v: "validate L ?d = Inr p"
      from v have "invalid_paths ?d = []"
        by (simp add: validate_def split: if_splits)
      then have "payload_ok L req"
        unfolding payload_ok_def by (rule new_Product_valid)
      with s v show ?thesis
        using validate_invariant [OF v] auth Inr by (simp add: app_post_product_def)
    qed
  qed
qed

lemma errorHandler_no_status:
  "statusCode e = None \<Longrightarrow> status (errorHandler cfg e) = INTERNAL_SERVER_ERROR"
  by (simp add: errorHandler_def Let_def)

lemma app_create_route:
  assumes "dispatch req = Some (CreateProduct, ps)"
  shows "app L cfg rt req st =
           (case app_post_product L cfg rt req st of
              (Respond r, s) \<Rightarrow> (r, s) | (Next e, s) \<Rightarrow> (errorHandler cfg e, s))"
  using assms by (simp add: app_def)

text \<open>
  C5, as the code has it. A create, by the controller or by \<open>server.js\<close>, leaves the
  store as it was or appends one document whose price is not negative and whose category is
  one of the six names; so a store in which every document has these two properties keeps
  them. A create whose payload violates them inserts nothing. The controller fails with
  the \<open>ValidationError\<close> of the schema, which carries no status code, and passes it on.
  In \<open>server.js\<close>, a request that passed the Auth Gate is refused by the request
  validator with 400 and a list of errors, or fails with the \<open>ValidationError\<close> of the
  schema, which the Error Responder answers with 500.
\<close>

theorem create_keeps_invariants:
  "(createProduct L rt req st = (out, st') \<longrightarrow>
      (st' = st \<or> (\<exists>p. st' = st @ [p] \<and> product_invariant p)) \<and>
      ((\<forall>p\<in>set st. product_invariant p) \<longrightarrow> (\<forall>p\<in>set st'. product_invariant p)) \<and>
      (\<not> payload_ok L req \<longrightarrow>
         st' = st \<and>
         (\<exists>e. out = Next e \<and> err_name e = ''ValidationError'' \<and> statusCode e = None \<and>
              errors e \<noteq> []))) \<and>
   (app_post_product L cfg rt req st = (out2, st2) \<longrightarrow>
      (st2 = st \<or> (\<exists>p. st2 = st @ [p] \<and> product_invariant p)) \<and>
      ((\<forall>p\<in>set st. product_invariant p) \<longrightarrow> (\<forall>p\<in>set st2. product_invariant p)) \<and>
      (\<not> payload_ok L req \<longrightarrow> st2 = st) \<and>
      (\<not> payload_ok L req \<and> authenticate cfg req = Inr () \<longrightarrow>
         (\<exists>errs. out2 = Respond \<lparr>status = BAD_REQUEST, body = Errors errs\<rparr> \<and> errs \<noteq> []) \<or>
         (\<exists>e. out2 = Next e \<and> err_name e = ''ValidationError'' \<and> statusCode e = None \<and>
              errors e \<noteq> [] \<and> status (errorHandler cfg e) = INTERNAL_SERVER_ERROR))) \<and>
   (dispatch req = Some (CreateProduct, ps) \<and> app L cfg rt req st = (r, st3) \<and>
    \<not> payload_ok L req \<and> authenticate cfg req = Inr () \<longrightarrow>
      st3 = st \<and>
      ((\<exists>errs. r = \<lparr>status = BAD_REQUEST, body = Errors errs\<rparr> \<and> errs \<noteq> []) \<or>
       (\<exists>e. r = errorHandler cfg e \<and> err_name e = ''ValidationError'' \<and>
            status r = INTERNAL_SERVER_ERROR)))"
proof -
  have c: "(st' = st \<or> (\<exists>p. st' = st @ [p] \<and> product_invariant p)) \<and>
           (\<not> payload_ok L req \<longrightarrow>
              st' = st \<and>
              (\<exists>e. out = Next e \<and> err_name e = ''ValidationError'' \<and> statusCode e = None \<and>
                   errors e \<noteq> []))"
    if "createProduct L rt req st = (out, st')"
    using createProduct_cases [of L rt req st] that by auto
  have a: "(s2 = st \<or> (\<exists>p. s2 = st @ [p] \<and> product_invariant p)) \<and>
           (\<not> payload_ok L req \<longrightarrow> s2 = st) \<and>
           (\<not> payload_ok L req \<and> authenticate cfg req = Inr () \<longrightarrow>
              (\<exists>errs. o2 = Respond \<lparr>status = BAD_REQUEST, body = Errors errs\<rparr> \<and> errs \<noteq> []) \<or>
              (\<exists>e. o2 = Next e \<and> err_name e = ''ValidationError'' \<and> statusCode e = None \<and>
                   errors e \<noteq> [] \<and> status (errorHandler cfg e) = INTERNAL_SERVER_ERROR))"
    if "app_post_product L cfg rt req st = (o2, s2)" for o2 s2
    using app_post_product_cases [of L cfg rt req st] that
    by (auto simp: errorHandler_no_status)
  have k: "\<forall>p\<in>set s'. product_invariant p"
    if "s' = st \<or> (\<exists>p. s' = st @ [p] \<and> product_invariant p)"
      and "\<forall>p\<in>set st. product_invariant p" for s'
    using that by auto
  have g: "st3 = st \<and>
      ((\<exists>errs. r = \<lparr>status = BAD_REQUEST, body = Errors errs\<rparr> \<and> errs \<noteq> []) \<or>
       (\<exists>e. r = errorHandler cfg e \<and> err_name e = ''ValidationError'' \<and>
            status r = INTERNAL_SERVER_ERROR))"
    if h: "dispatch req = Some (CreateProduct, ps) \<and> app L cfg rt req st = (r, st3) \<and>
           \<not> payload_ok L req \<and> authenticate cfg req = Inr ()"
  proof -
    obtain o2 s2 where p: "app_post_product L cfg rt req st = (o2, s2)"
      by (cases "app_post_product L cfg rt req st")
    from h have n: "\<not> payload_ok L req \<and> authenticate cfg req = Inr ()"
      by blast
    from h have d: "dispatch req = Some (CreateProduct, ps)"
      and ap: "app L cfg rt req st = (r, st3)"
      by blast+
    from app_create_route [OF d, of L cfg rt st] ap p
    have r: "(r, st3) = (case o2 of Respond x \<Rightarrow> (x, s2)
                                  | Next e \<Rightarrow> (errorHandler cfg e, s2))"
      by (simp split: outcome.splits)
    from a [OF p] n have s: "s2 = st"
      by blast
    from a [OF p] n consider
        (refused) errs where "o2 = Respond \<lparr>status = BAD_REQUEST, body = Errors errs\<rparr>"
          "errs \<noteq> []"
      | (failed) e where "o2 = Next e" "err_name e = ''ValidationError''"
          "status (errorHandler cfg e) = INTERNAL_SERVER_ERROR"
      by blast
    then show ?thesis
    proof cases
      case refused
      with r s show ?thesis by simp
    next
      case failed
      with r s show ?thesis by auto
    qed
  qed
  from c a [of out2 st2] k g show ?thesis
    by blast
qed

text \<open>
  The theorem at the example store: the mug for \<open>-5\<close> is refused by both create
  operations, the mug for 5 is appended.
\<close>

theorem create_keeps_invariants_witness:
  "list_all product_invariant store0 \<and> \<not> payload_ok lib0 mug_negative \<and>
   authenticate cfg0 mug_negative = Inr () \<and>
   dispatch mug_negative = Some (CreateProduct, []) \<and>
   createProduct lib0 rt0 mug_negative store0 =
     (Next (SchemaValidationError lib0 [''price'']), store0) \<and>
   app_post_product lib0 cfg0 rt0 mug_negative store0 =
     (Next (SchemaValidationError lib0 [''price'']), store0) \<and>
   status (errorHandler cfg0 (SchemaValidationError lib0 [''price''])) = INTERNAL_SERVER_ERROR \<and>
   snd (app lib0 cfg0 rt0 mug_negative store0) = store0 \<and>
   createProduct lib0 rt0 mug store0 =
     (Respond \<lparr>status = CREATED, body = Data mug_created\<rparr>, store0 @ [mug_created]) \<and>
   list_all product_invariant (store0 @ [mug_created])"
proof -
  have i: "list_all product_invariant store0"
    by code_simp
  have n: "\<not> payload_ok lib0 mug_negative \<and> authenticate cfg0 mug_negative = Inr () \<and>
           dispatch mug_negative = Some (CreateProduct, [])"
    by code_simp
  have c: "createProduct lib0 rt0 mug_negative store0 =
             (Next (SchemaValidationError lib0 [''price'']), store0)"
    by code_simp
  have a: "app_post_product lib0 cfg0 rt0 mug_negative store0 =
             (Next (SchemaValidationError lib0 [''price'']), store0)"
    by code_simp
  have m: "createProduct lib0 rt0 mug store0 =
             (Respond \<lparr>status = CREATED, body = Data mug_created\<rparr>, store0 @ [mug_created])"
    by code_simp
  note t1 = create_keeps_invariants
        [of lib0 rt0 mug store0 "Respond \<lparr>status = CREATED, body = Data mug_created\<rparr>"
            "store0 @ [mug_created]" cfg0]
  note t2 = create_keeps_invariants
        [of lib0 rt0 mug_negative store0 _ _ cfg0
            "Next (SchemaValidationError lib0 [''price''])" store0 "[]"
            "fst (app lib0 cfg0 rt0 mug_negative store0)"
            "snd (app lib0 cfg0 rt0 mug_negative store0)"]
  from i m t1 have a1: "list_all product_invariant (store0 @ [mug_created])"
    unfolding list_all_iff by blast
  from n a t2 have a2: "status (errorHandler cfg0 (SchemaValidationError lib0 [''price'']))
      = INTERNAL_SERVER_ERROR"
    by blast
  from n t2 have a3: "snd (app lib0 cfg0 rt0 mug_negative store0) = store0"
    by simp
  from i n c a m a1 a2 a3 show ?thesis
    by (intro conjI) (blast+)
qed

text \<open>
  Against C5 as it is stated: the create of the mug for \<open>-5\<close>, sent to \<open>server.js\<close> with
  the right key, passes the request validator, inserts nothing and is answered with 500,
  the status of an internal error, not with the 400 of a validation error.
\<close>

theorem create_negative_price_counterexample:
  "\<not> payload_ok lib0 mug_negative \<and> authenticate cfg0 mug_negative = Inr () \<and>
   validateProduct lib0 mug_negative = Inr () \<and>
   meth mug_negative = POST \<and> url_path mug_negative = [''api'', ''products''] \<and>
   status (fst (app lib0 cfg0 rt0 mug_negative store0)) = INTERNAL_SERVER_ERROR \<and>
   snd (app lib0 cfg0 rt0 mug_negative store0) = store0"
  by code_simp

section \<open>Properties of the statistics\<close>

lemma length_filter_disjoint:
  "(\<And>x. x \<in> set xs \<Longrightarrow> \<not> (P x \<and> Q x)) \<Longrightarrow>
   length (filter P xs) + length (filter Q xs) = length (filter (\<lambda>x. P x \<or> Q x) xs)"
  by (induction xs) auto

lemma sum_group_counts:
  "distinct cs \<Longrightarrow>
   sum_list (map (\<lambda>c. length (filter (\<lambda>p. f p = c) xs)) cs)
     = length (filter (\<lambda>p. f p \<in> set cs) xs)"
proof (induction cs)
  case Nil
  show ?case by simp
next
  case (Cons c cs)
  then have "c \<notin> set cs" and ih: "sum_list (map (\<lambda>c. length (filter (\<lambda>p. f p = c) xs)) cs)
     = length (filter (\<lambda>p. f p \<in> set cs) xs)"
    by simp_all
  have "length (filter (\<lambda>p. f p = c) xs) + length (filter (\<lambda>p. f p \<in> set cs) xs)
          = length (filter (\<lambda>p. f p = c \<or> f p \<in> set cs) xs)"
    using \<open>c \<notin> set cs\<close> by (intro length_filter_disjoint) auto
  with ih show ?case by simp
qed

lemma count_group_stats: "count (group_stats st c) = length (filter (\<lambda>p. category p = c) st)"
  by (simp add: group_stats_def Let_def)

lemma sum_counts_aggregate:
  "sum_list (map count (aggregate st)) = length st"
proof -
  let ?cs = "sort (remdups (map category st))"
  have "sum_list (map count (aggregate st))
          = sum_list (map (\<lambda>c. length (filter (\<lambda>p. category p = c) st)) ?cs)"
    by (simp add: aggregate_def comp_def count_group_stats)
  also have "\<dots> = length (filter (\<lambda>p. category p \<in> set ?cs) st)"
    by (rule sum_group_counts) simp
  also have "\<dots> = length st"
    by simp
  finally show ?thesis .
qed

lemma fold_counts:
  "fold (\<lambda>curr acc. acc + int (count curr)) xs a = a + int (sum_list (map count xs))"
  by (induction xs arbitrary: a) simp_all

lemma inStock_true_le: "inStock_true st \<le> length st"
  by (simp add: inStock_true_def)

text \<open>
  C7. In the statistics of the controller and of \<open>server.js\<close>, the counts of the
  entries of \<open>byCategory\<close> add up to \<open>totalProducts\<close>, and \<open>inStock\<close> and
  \<open>outOfStock\<close> add up to \<open>totalProducts\<close>; \<open>totalProducts\<close> is the number of
  documents in the store.
\<close>

theorem stats_totals:
  "(getProductStats st = Respond r \<and> body r = Stats d \<longrightarrow>
      int (sum_list (map count (byCategory d))) = totalProducts d \<and>
      inStockCount d + outOfStock d = totalProducts d \<and>
      totalProducts d = int (length st) \<and> 0 \<le> outOfStock d) \<and>
   (app_get_statistics st = Respond r2 \<and> body r2 = Stats d2 \<longrightarrow>
      int (sum_list (map count (byCategory d2))) = totalProducts d2 \<and>
      inStockCount d2 + outOfStock d2 = totalProducts d2 \<and>
      totalProducts d2 = int (length st) \<and> 0 \<le> outOfStock d2)"
proof (intro conjI impI)
  assume "getProductStats st = Respond r \<and> body r = Stats d"
  then have d: "d = \<lparr>totalProducts = int (length st), inStockCount = int (inStock_true st),
                     outOfStock = int (length st) - int (inStock_true st),
                     byCategory = aggregate st\<rparr>"
    by (auto simp: getProductStats_def Let_def fold_counts sum_counts_aggregate)
  show "int (sum_list (map count (byCategory d))) = totalProducts d"
    by (simp add: d sum_counts_aggregate)
  show "inStockCount d + outOfStock d = totalProducts d"
    by (simp add: d)
  show "totalProducts d = int (length st)"
    by (simp add: d)
  show "0 \<le> outOfStock d"
    using inStock_true_le [of st] by (simp add: d)
next
  assume "app_get_statistics st = Respond r2 \<and> body r2 = Stats d2"
  then have d: "d2 = \<lparr>totalProducts = int (length st), inStockCount = int (inStock_true st),
                     outOfStock = int (length st) - int (inStock_true st),
                     byCategory = aggregate st\<rparr>"
    by (auto simp: app_get_statistics_def)
  show "int (sum_list (map count (byCategory d2))) = totalProducts d2"
    by (simp add: d sum_counts_aggregate)
  show "inStockCount d2 + outOfStock d2 = totalProducts d2"
    by (simp add: d)
  show "totalProducts d2 = int (length st)"
    by (simp add: d)
  show "0 \<le> outOfStock d2"
    using inStock_true_le [of st] by (simp add: d)
qed

text \<open>The theorem at the example store.\<close>

theorem stats_totals_witness:
  "getProductStats store0 = Respond \<lparr>status = OK, body = Stats stats0\<rparr> \<and>
   app_get_statistics store0 = Respond \<lparr>status = OK, body = Stats stats0\<rparr> \<and>
   int (sum_list (map count (byCategory stats0))) = totalProducts stats0 \<and>
   inStockCount stats0 + outOfStock stats0 = totalProducts stats0"
proof -
  have g: "getProductStats store0 = Respond \<lparr>status = OK, body = Stats stats0\<rparr>"
    by code_simp
  have a: "app_get_statistics store0 = Respond \<lparr>status = OK, body = Stats stats0\<rparr>"
    by code_simp
  show ?thesis
    using g a
      stats_totals [of store0 "\<lparr>status = OK, body = Stats stats0\<rparr>" stats0
                       "\<lparr>status = OK, body = Stats stats0\<rparr>" stats0]
    by simp
qed

section \<open>Properties of list\<close>

lemma getProducts_listing:
  assumes "getProducts L req st = Respond r" and "body r = Listing l"
  shows "l_total l = length (matching L (build_query L req) st) \<and>
         l_page l = num_param L req ''page'' 1 \<and>
         l_totalPages l = js_ceil (js_div (Fin (of_nat (l_total l))) (num_param L req ''limit'' 10)) \<and>
         hasNextPage l = js_lt (l_page l) (l_totalPages l) \<and>
         hasPreviousPage l = js_lt (Fin 1) (l_page l) \<and>
         find_sorted L (build_query L req) (str_param req ''sort'' ''-createdAt'')
           (js_mul (js_sub (l_page l) (Fin 1)) (num_param L req ''limit'' 10))
           (num_param L req ''limit'' 10) st = Inr (l_data l) \<and>
         l_count l = length (l_data l)"
  using assms
  by (auto simp: getProducts_def Let_def countDocuments_def split: sum.splits option.splits)

lemma app_get_products_page:
  assumes "app_get_products L req st = Respond r" and "body r = Page d"
  shows "p_total d = length (matching L (app_query req) st) \<and>
         p_totalPages d = js_ceil (js_div (Fin (of_nat (p_total d))) (num_param L req ''limit'' 10)) \<and>
         find_sorted L (app_query req) (str_param req ''sort'' ''-createdAt'')
           (js_mul (js_sub (num_param L req ''page'' 1) (Fin 1)) (num_param L req ''limit'' 10))
           (js_mul (num_param L req ''limit'' 10) (Fin 1)) st = Inr (p_data d)"
  using assms
  by (auto simp: app_get_products_def Let_def countDocuments_def split: sum.splits option.splits)







lemma map_of_filter_key:
  "map_of (filter (\<lambda>kv. fst kv \<noteq> k0) xs) k = (if k = k0 then None else map_of xs k)"
  by (induction xs) auto

lemma param_without_category:
  "param (without_category req) k = (if k = ''category'' then None else param req k)"
  by (simp add: param_def without_category_def map_of_filter_key)

lemma given_without_category:
  "given (without_category req) k = (if k = ''category'' then None else given req k)"
  by (simp add: given_def param_without_category)

lemma build_query_category:
  assumes "given req ''category'' = Some c"
  shows "\<exists>xs ys. build_query L req = xs @ [CategoryIn (split CHR '','' c)] @ ys \<and>
                 build_query L (without_category req) = xs @ ys"
proof -
  let ?xs = "(case given req ''name'' of None \<Rightarrow> [] | Some n \<Rightarrow> [NameRegex n]) @
     (if given req ''minPrice'' \<noteq> None \<or> given req ''maxPrice'' \<noteq> None
      then (case given req ''minPrice'' of None \<Rightarrow> [] | Some m \<Rightarrow> [PriceGte (toNumber L m)]) @
           (case given req ''maxPrice'' of None \<Rightarrow> [] | Some m \<Rightarrow> [PriceLte (toNumber L m)])
      else [])"
  let ?ys = "(if param req ''inStock'' = Some ''true'' \<or> param req ''inStock'' = Some ''false''
      then [InStockEq (param req ''inStock'' = Some ''true'')] else [])"
  have "build_query L req = ?xs @ [CategoryIn (split CHR '','' c)] @ ?ys"
    using assms by (simp add: build_query_def)
  moreover have "build_query L (without_category req) = ?xs @ ?ys"
    by (simp add: build_query_def given_without_category param_without_category)
  ultimately show ?thesis by blast
qed

lemma matching_category:
  assumes "given req ''category'' = Some c"
  shows "matching L (build_query L req) st =
           filter (\<lambda>p. category p \<in> listed L c) (matching L (build_query L (without_category req)) st)"
proof -
  from build_query_category [OF assms, of L] obtain xs ys
    where q: "build_query L req = xs @ [CategoryIn (split CHR '','' c)] @ ys"
      and q': "build_query L (without_category req) = xs @ ys"
    by blast
  show ?thesis
    unfolding q q' by (auto simp: matching_def listed_def intro: filter_cong)
qed

lemma window_regular:
  assumes "as_nat s = Some i" and "as_nat l = Some (Suc n)"
  shows "window L s l xs = Some (take (Suc n) (drop i xs))"
  using assms by (simp add: window_def)

lemma getProducts_category:
  assumes run: "getProducts L req st = Respond r" and b: "body r = Listing l"
    and c: "given req ''category'' = Some c"
  shows "l_total l = length (filter (\<lambda>p. category p \<in> listed L c)
                        (matching L (build_query L (without_category req)) st)) \<and>
         window L (js_mul (js_sub (l_page l) (Fin 1)) (num_param L req ''limit'' 10))
           (num_param L req ''limit'' 10)
           (sortBy L (str_param req ''sort'' ''-createdAt'')
              (filter (\<lambda>p. category p \<in> listed L c)
                 (matching L (build_query L (without_category req)) st))) = Some (l_data l)"
proof -
  note m = getProducts_listing [OF run b]
  from m have "l_total l = length (matching L (build_query L req) st)"
    by blast
  moreover from m have "find_sorted L (build_query L req) (str_param req ''sort'' ''-createdAt'')
           (js_mul (js_sub (l_page l) (Fin 1)) (num_param L req ''limit'' 10))
           (num_param L req ''limit'' 10) st = Inr (l_data l)"
    by blast
  then have "window L (js_mul (js_sub (l_page l) (Fin 1)) (num_param L req ''limit'' 10))
           (num_param L req ''limit'' 10)
           (sortBy L (str_param req ''sort'' ''-createdAt'') (matching L (build_query L req) st))
             = Some (l_data l)"
    by (auto simp: find_sorted_def split: option.splits)
  ultimately show ?thesis
    by (simp add: matching_category [OF c])
qed

lemma as_nat_of_nat: "as_nat (Fin (of_nat n)) = Some n"
  by (simp add: as_nat_def)

lemma app_query_category:
  assumes "given req ''category'' = Some c"
  shows "app_query req = CategoryEq c # app_query (without_category req)"
  using assms by (simp add: app_query_def given_without_category param_without_category)

lemma app_get_products_category:
  assumes run: "app_get_products L req st = Respond r" and b: "body r = Page d"
    and c: "given req ''category'' = Some c"
  shows "p_total d = length (filter (\<lambda>p. category p = castFilter L c)
                        (matching L (app_query (without_category req)) st))"
proof -
  from app_get_products_page [OF run b]
  have "p_total d = length (matching L (app_query req) st)"
    by blast
  also have "matching L (app_query req) st =
               filter (\<lambda>p. category p = castFilter L c)
                 (matching L (app_query (without_category req)) st)"
    unfolding app_query_category [OF c] by (auto simp: matching_def intro: filter_cong)
  finally show ?thesis .
qed

text \<open>
  C8, as the code has it. The controller splits the parameter \<open>category\<close> at its commas:
  \<open>total\<close> counts the documents that pass the other filters and whose category is one
  of the listed ones, and the items are the requested window of exactly these documents,
  sorted; when they fit on the first page, the items are these documents. The list route of
  \<open>server.js\<close> compares the category of a document with the whole parameter.
\<close>

theorem category_filter:
  assumes run: "getProducts L req st = Respond r" and b: "body r = Listing l"
    and c: "given req ''category'' = Some c"
  shows "l_total l = length (filter (\<lambda>p. category p \<in> listed L c)
                        (matching L (build_query L (without_category req)) st)) \<and>
         window L (js_mul (js_sub (l_page l) (Fin 1)) (num_param L req ''limit'' 10))
           (num_param L req ''limit'' 10)
           (sortBy L (str_param req ''sort'' ''-createdAt'')
              (filter (\<lambda>p. category p \<in> listed L c)
                 (matching L (build_query L (without_category req)) st))) = Some (l_data l) \<and>
         (sort_reorders L \<and> l_page l = Fin 1 \<and>
          num_param L req ''limit'' 10 = Fin (of_nat (Suc n)) \<and> l_total l \<le> Suc n \<longrightarrow>
            set (l_data l) =
              {p \<in> set (matching L (build_query L (without_category req)) st).
                 category p \<in> listed L c}) \<and>
         (app_get_products L req st = Respond r2 \<and> body r2 = Page d \<longrightarrow>
            p_total d = length (filter (\<lambda>p. category p = castFilter L c)
                                 (matching L (app_query (without_category req)) st)))"
proof -
  let ?ms = "filter (\<lambda>p. category p \<in> listed L c)
               (matching L (build_query L (without_category req)) st)"
  let ?lim = "num_param L req ''limit'' 10"
  let ?srt = "str_param req ''sort'' ''-createdAt''"
  note g = getProducts_category [OF run b c]
  from g have t: "l_total l = length ?ms"
    by blast
  from g have w: "window L (js_mul (js_sub (l_page l) (Fin 1)) ?lim) ?lim (sortBy L ?srt ?ms)
                    = Some (l_data l)"
    by blast
  have one: "set (l_data l) = {p \<in> set (matching L (build_query L (without_category req)) st).
                 category p \<in> listed L c}"
    if h: "sort_reorders L \<and> l_page l = Fin 1 \<and> ?lim = Fin (of_nat (Suc n)) \<and> l_total l \<le> Suc n"
  proof -
    from h have sr: "set (sortBy L ?srt ?ms) = set ?ms"
      and ln: "length (sortBy L ?srt ?ms) = length ?ms"
      by (simp_all add: sort_reorders_def)
    from h have pg: "l_page l = Fin 1" and lm: "?lim = Fin (of_nat (Suc n))"
      and le: "l_total l \<le> Suc n"
      by blast+
    have s0: "as_nat (js_mul (js_sub (l_page l) (Fin 1)) ?lim) = Some 0"
      unfolding pg lm by (simp add: as_nat_def)
    have l0: "as_nat ?lim = Some (Suc n)"
      unfolding lm by (rule as_nat_of_nat)
    from w have "l_data l = take (Suc n) (drop 0 (sortBy L ?srt ?ms))"
      by (simp add: window_regular [OF s0 l0])
    also have "\<dots> = sortBy L ?srt ?ms"
      using le t ln by simp
    finally show ?thesis
      using sr by auto
  qed
  have srv: "p_total d = length (filter (\<lambda>p. category p = castFilter L c)
                                 (matching L (app_query (without_category req)) st))"
    if "app_get_products L req st = Respond r2 \<and> body r2 = Page d"
    using that app_get_products_category [OF _ _ c] by blast
  from t w one srv show ?thesis
    by blast
qed

text \<open>
  The theorem at the request for \<open>electronics,clothing\<close> in stock, on the example store.
\<close>

theorem category_filter_witness:
  "getProducts lib0 two_categories store0 =
     Respond \<lparr>status = OK, body = Listing two_categories_listing\<rparr> \<and>
   given two_categories ''category'' = Some ''electronics,clothing'' \<and>
   listed lib0 ''electronics,clothing'' = {''electronics'', ''clothing''} \<and>
   sort_reorders lib0 \<and> l_page two_categories_listing = Fin 1 \<and>
   num_param lib0 two_categories ''limit'' 10 = Fin (of_nat (Suc 9)) \<and>
   l_total two_categories_listing \<le> Suc 9 \<and>
   set (l_data two_categories_listing) =
     {p \<in> set (matching lib0 (build_query lib0 (without_category two_categories)) store0).
        category p \<in> listed lib0 ''electronics,clothing''}"
proof -
  have g: "getProducts lib0 two_categories store0 =
             Respond \<lparr>status = OK, body = Listing two_categories_listing\<rparr>"
    by code_simp
  have b: "body \<lparr>status = OK, body = Listing two_categories_listing\<rparr> =
             Listing two_categories_listing"
    by simp
  have c: "given two_categories ''category'' = Some ''electronics,clothing''"
    by code_simp
  have s: "sort_reorders lib0"
    by (simp add: sort_reorders_def lib0_def sortBy0_def sort_field_def split: list.splits)
  have l: "listed lib0 ''electronics,clothing'' = {''electronics'', ''clothing''}"
    by (simp add: listed_def lib0_def ascii_lower_def) 
  have n: "l_page two_categories_listing = Fin 1 \<and>
           num_param lib0 two_categories ''limit'' 10 = Fin (of_nat (Suc 9)) \<and>
           l_total two_categories_listing \<le> Suc 9"
    by code_simp
  show ?thesis
    using category_filter [OF g b c, of 9] s n
    by (intro conjI g c s l) (blast+)
qed

text \<open>
  Against C8 as it is stated: \<open>server.js\<close> answers the same request with no items,
  though the store holds a document in stock whose category is the first of the two listed.
\<close>

theorem category_filter_server_counterexample:
  "given two_categories ''category'' = Some ''electronics,clothing'' \<and>
   laptop \<in> set store0 \<and> inStock laptop = Some True \<and>
   category laptop \<in> set (split CHR '','' ''electronics,clothing'') \<and>
   app_get_products lib0 two_categories store0 =
     Respond \<lparr>status = OK,
              body = Page \<lparr>p_total = 0, p_totalPages = Fin 0, currentPage = JNum (Fin 1),
                           p_data = []\<rparr>\<rparr>"
  by code_simp

end
